theory Spec2Isabelle
  imports Complex_Main "HOL-Library.Char_ord" "HOL-Library.List_Lexorder"
    "HOL-Library.Product_Lexorder" "HOL-Library.AList"
begin

section \<open>Numbers of the data frames\<close>

text \<open>
  The columns the metric engine works on are float64 columns of pandas data frames. A value
  is modelled as a finite number, one of the two infinities, or NaN. Finite arithmetic is
  exact (rounding and overflow to infinity are not modelled) and zero carries no sign, so a
  positive number divided by zero is \<open>PInf\<close>. Division follows numpy: dividing by zero
  raises nothing and yields an infinity or NaN.
\<close>

datatype fl = Fin rat | PInf | NInf | NaN

fun fl_neg :: "fl \<Rightarrow> fl" where
  "fl_neg (Fin a) = Fin (- a)"
| "fl_neg PInf = NInf"
| "fl_neg NInf = PInf"
| "fl_neg NaN = NaN"

fun fl_add :: "fl \<Rightarrow> fl \<Rightarrow> fl" where
  "fl_add NaN _ = NaN"
| "fl_add _ NaN = NaN"
| "fl_add (Fin a) (Fin b) = Fin (a + b)"
| "fl_add PInf NInf = NaN"
| "fl_add NInf PInf = NaN"
| "fl_add PInf _ = PInf"
| "fl_add NInf _ = NInf"
| "fl_add (Fin a) PInf = PInf"
| "fl_add (Fin a) NInf = NInf"

definition fl_sub :: "fl \<Rightarrow> fl \<Rightarrow> fl" where
  "fl_sub a b = fl_add a (fl_neg b)"

text \<open>The sign of a non-NaN value: \<open>-1\<close>, \<open>0\<close> or \<open>1\<close>; zero counts as positive
  where it is a divisor of an infinity.\<close>

fun fl_sgn :: "fl \<Rightarrow> rat" where
  "fl_sgn (Fin a) = sgn a"
| "fl_sgn PInf = 1"
| "fl_sgn NInf = - 1"
| "fl_sgn NaN = 0"

definition fl_inf_of_sign :: "rat \<Rightarrow> fl" where
  "fl_inf_of_sign s = (if s = 0 then NaN else if 0 < s then PInf else NInf)"

fun fl_mul :: "fl \<Rightarrow> fl \<Rightarrow> fl" where
  "fl_mul NaN _ = NaN"
| "fl_mul _ NaN = NaN"
| "fl_mul (Fin a) (Fin b) = Fin (a * b)"
| "fl_mul a b = fl_inf_of_sign (fl_sgn a * fl_sgn b)"

fun fl_div :: "fl \<Rightarrow> fl \<Rightarrow> fl" where
  "fl_div NaN _ = NaN"
| "fl_div _ NaN = NaN"
| "fl_div (Fin a) (Fin b) = (if b = 0 then fl_inf_of_sign (sgn a) else Fin (a / b))"
| "fl_div (Fin a) _ = Fin 0"
| "fl_div a (Fin b) = fl_inf_of_sign (fl_sgn a * (if b < 0 then - 1 else 1))"
| "fl_div _ _ = NaN"

text \<open>Elementwise \<open>!=\<close>: NaN differs from everything, itself included.\<close>

definition fl_ne :: "fl \<Rightarrow> fl \<Rightarrow> bool" where
  "fl_ne a b = (a = NaN \<or> b = NaN \<or> a \<noteq> b)"

text \<open>The order of the non-NaN values.\<close>

fun fl_le :: "fl \<Rightarrow> fl \<Rightarrow> bool" where
  "fl_le NInf _ = True"
| "fl_le _ PInf = True"
| "fl_le (Fin a) (Fin b) = (a \<le> b)"
| "fl_le _ _ = False"

definition fl_min2 :: "fl \<Rightarrow> fl \<Rightarrow> fl" where
  "fl_min2 a b = (if fl_le a b then a else b)"

definition isnan :: "fl \<Rightarrow> bool" where
  "isnan a = (a = NaN)"

text \<open>\<open>Series.min()\<close> and \<open>Series.mean()\<close> with the default \<open>skipna=True\<close>: NaN entries are
  left out; with nothing left the result is NaN. The mean is the sum of the remaining values
  divided by their number.\<close>

definition Series_min :: "fl list \<Rightarrow> fl" where
  "Series_min xs =
     (case filter (\<lambda>x. \<not> isnan x) xs of [] \<Rightarrow> NaN | y # ys \<Rightarrow> fold fl_min2 ys y)"

definition Series_sum :: "fl list \<Rightarrow> fl" where
  "Series_sum xs = fold (\<lambda>x acc. fl_add acc x) (filter (\<lambda>x. \<not> isnan x) xs) (Fin 0)"

definition Series_mean :: "fl list \<Rightarrow> fl" where
  "Series_mean xs =
     (let n = length (filter (\<lambda>x. \<not> isnan x) xs)
      in if n = 0 then NaN else fl_div (Series_sum xs) (Fin (of_nat n)))"

section \<open>Errors\<close>

text \<open>The exceptions the modelled code paths can raise; \<open>KeyError\<close> carries the missing
  column name. A step that may raise returns an error or a value; \<open>ebind\<close> sequences such
  steps, and \<open>emap\<close> applies one to the elements of a list in order and stops at the first
  error, as \<open>Series.apply\<close> and \<open>DataFrame.apply\<close> do.\<close>

datatype py_error = KeyError string | ValueError | TypeError | ZeroDivisionError

definition ebind :: "py_error + 'a \<Rightarrow> ('a \<Rightarrow> py_error + 'b) \<Rightarrow> py_error + 'b" where
  "ebind r f = (case r of Inl e \<Rightarrow> Inl e | Inr x \<Rightarrow> f x)"

fun emap :: "('a \<Rightarrow> py_error + 'b) \<Rightarrow> 'a list \<Rightarrow> py_error + 'b list" where
  "emap f [] = Inr []"
| "emap f (x # xs) = ebind (f x) (\<lambda>y. ebind (emap f xs) (\<lambda>ys. Inr (y # ys)))"

section \<open>Scalars\<close>

text \<open>
  The arithmetic of \<open>compute_bias\<close> and \<open>word_error_rate\<close> depends on what their operands
  are: a Python float, a numpy float64 or a numpy int64. Python float division by zero
  raises ZeroDivisionError; as soon as one operand is a numpy scalar the operation is numpy's,
  which raises nothing and yields an infinity or NaN. int64 addition wraps around. The
  quotient of two int64 values is a float64.
\<close>

datatype scalar = PyFloat fl | NpFloat fl | NpInt int

definition int64 :: "int \<Rightarrow> int" where
  "int64 x = (x + 2 ^ 63) mod 2 ^ 64 - 2 ^ 63"

fun to_fl :: "scalar \<Rightarrow> fl" where
  "to_fl (PyFloat x) = x"
| "to_fl (NpFloat x) = x"
| "to_fl (NpInt i) = Fin (of_int i)"

fun sc_add :: "scalar \<Rightarrow> scalar \<Rightarrow> scalar" where
  "sc_add (PyFloat x) (PyFloat y) = PyFloat (fl_add x y)"
| "sc_add (NpInt i) (NpInt j) = NpInt (int64 (i + j))"
| "sc_add a b = NpFloat (fl_add (to_fl a) (to_fl b))"

fun sc_sub :: "scalar \<Rightarrow> scalar \<Rightarrow> scalar" where
  "sc_sub (PyFloat x) (PyFloat y) = PyFloat (fl_sub x y)"
| "sc_sub (NpInt i) (NpInt j) = NpInt (int64 (i - j))"
| "sc_sub a b = NpFloat (fl_sub (to_fl a) (to_fl b))"

fun sc_div :: "scalar \<Rightarrow> scalar \<Rightarrow> py_error + scalar" where
  "sc_div (PyFloat x) (PyFloat y) =
     (if y = Fin 0 then Inl ZeroDivisionError else Inr (PyFloat (fl_div x y)))"
| "sc_div a b = Inr (NpFloat (fl_div (to_fl a) (to_fl b)))"

text \<open>Multiplication by a Python int literal.\<close>

fun sc_mul_int :: "scalar \<Rightarrow> int \<Rightarrow> scalar" where
  "sc_mul_int (PyFloat x) k = PyFloat (fl_mul x (Fin (of_int k)))"
| "sc_mul_int (NpFloat x) k = NpFloat (fl_mul x (Fin (of_int k)))"
| "sc_mul_int (NpInt i) k = NpInt (int64 (i * k))"

section \<open>Bias measures (evaluation/metrics.py)\<close>

text \<open>The two bias measures; the operands are whatever the caller passes.\<close>

datatype BiasMeasure = DiffBias | RelDiffBias

fun compute_bias :: "BiasMeasure \<Rightarrow> scalar \<Rightarrow> scalar \<Rightarrow> py_error + scalar" where
  "compute_bias DiffBias group_error_rate reference_error_rate =
     Inr (sc_sub group_error_rate reference_error_rate)"
| "compute_bias RelDiffBias group_error_rate reference_error_rate =
     sc_div (sc_sub group_error_rate reference_error_rate) reference_error_rate"

text \<open>A row of the group-WER table (index levels \<open>Model\<close> and the label field, column
  \<open>WER\<close>), and the same row with the \<open>Bias\<close> column added.\<close>

record wer_row =
  Model :: string
  GroupLabel :: string
  WER :: fl

record bias_row = wer_row +
  Bias :: fl

text \<open>\<open>DataFrame.groupby(key)\<close> as it is iterated: the distinct keys in sorted order, each
  with its rows in their original order.\<close>

definition groupby :: "('r \<Rightarrow> 'k::linorder) \<Rightarrow> 'r list \<Rightarrow> ('k \<times> 'r list) list" where
  "groupby key rows =
     map (\<lambda>k. (k, filter (\<lambda>r. key r = k) rows)) (sort (remdups (map key rows)))"

text \<open>\<open>Series.apply(f)\<close> on a float64 column: \<open>f\<close> gets each element as a Python float, and
  the results form a float64 column again.\<close>

definition Series_apply :: "(scalar \<Rightarrow> py_error + scalar) \<Rightarrow> fl list \<Rightarrow> py_error + fl list" where
  "Series_apply f xs = emap (\<lambda>x. ebind (f (PyFloat x)) (\<lambda>y. Inr (to_fl y))) xs"

definition add_bias :: "wer_row \<Rightarrow> fl \<Rightarrow> bias_row" where
  "add_bias r b = wer_row.extend r (bias_row.fields b)"

text \<open>Boolean-mask selection \<open>group[mask]\<close>.\<close>

definition select_mask :: "'r list \<Rightarrow> bool list \<Rightarrow> 'r list" where
  "select_mask rows flags = map fst (filter snd (zip rows flags))"

text \<open>One iteration of the loop of \<open>OverallBias.compute\<close> over the groups of a model. The
  state is the pair of \<open>bias_results\<close> and the dictionary \<open>overall_bias_per_model\<close>; the
  dictionary is assigned twice, the second assignment overwriting the first. The reference,
  the result of \<open>Series.min()\<close>, is a numpy float64.\<close>

definition compute_step ::
  "BiasMeasure \<Rightarrow> string \<times> wer_row list \<Rightarrow> bias_row list list \<times> (string \<times> fl) list
     \<Rightarrow> py_error + bias_row list list \<times> (string \<times> fl) list" where
  "compute_step bm ng st =
     (let name = fst ng; group = snd ng;
          bias_results = fst st; overall_bias_per_model = snd st;
          reference_error_rate = Series_min (map WER group);
          misrecognized_groups = map (\<lambda>r. fl_ne (WER r) reference_error_rate) group
      in ebind (Series_apply (\<lambda>x. compute_bias bm x (NpFloat reference_error_rate))
                  (map WER group)) (\<lambda>bias.
         let group = map (\<lambda>rb. add_bias (fst rb) (snd rb)) (zip group bias);
             overall_bias = Series_mean (map Bias group);
             overall_bias_per_model = AList.update name overall_bias overall_bias_per_model;
             group_without_reference = select_mask group misrecognized_groups;
             overall_bias = Series_mean (map Bias group_without_reference);
             overall_bias_per_model = AList.update name overall_bias overall_bias_per_model
         in Inr (bias_results @ [group], overall_bias_per_model)))"

fun compute_loop ::
  "BiasMeasure \<Rightarrow> (string \<times> wer_row list) list \<Rightarrow> bias_row list list \<times> (string \<times> fl) list
     \<Rightarrow> py_error + bias_row list list \<times> (string \<times> fl) list" where
  "compute_loop bm [] st = Inr st"
| "compute_loop bm (ng # rest) st = ebind (compute_step bm ng st) (compute_loop bm rest)"

text \<open>\<open>OverallBias.compute\<close>. \<open>pd.concat\<close> of an empty list raises ValueError, which is
  what happens on a table without rows. The first component of the result is the data frame
  of the overall bias per model (index: the dictionary's keys), the second the bias table.\<close>

definition OverallBias_compute ::
  "BiasMeasure \<Rightarrow> wer_row list \<Rightarrow> py_error + ((string \<times> fl) list \<times> bias_row list)" where
  "OverallBias_compute bm error_rates_per_group =
     (let group_error_rates_per_model = groupby Model error_rates_per_group
      in ebind (compute_loop bm group_error_rates_per_model ([], [])) (\<lambda>st.
         if fst st = [] then Inl ValueError
         else Inr (snd st, concat (fst st))))"












section \<open>Word error rate (utils.py)\<close>

definition word_error_rate :: "scalar \<Rightarrow> scalar \<Rightarrow> scalar \<Rightarrow> scalar \<Rightarrow> py_error + scalar" where
  "word_error_rate insertions deletions substitutions words =
     ebind (sc_div (sc_add (sc_add insertions deletions) substitutions) words) (\<lambda>q.
       Inr (sc_mul_int q 100))"

section \<open>Recognition output (evaluation/asr_performance_data.py)\<close>

text \<open>
  Tables that are joined or grouped are lists of rows, in index order; a column name of the
  source is a field of the row record. The count columns are int64 columns: a count is an
  integer of the int64 range. An error-count file yields rows of the five columns selected by
  \<open>build_dataframe\<close>, to which the column \<open>Model\<close> is added (field \<open>AsrModel\<close>); a metadata row
  has the speaker id, the recording identifier \<open>Filename\<close> and its remaining string columns
  (such as the predefined \<open>Group\<close>) by name.
\<close>

record error_row =
  SPKR :: string
  Wrd :: int
  Sub :: int
  Del :: int
  Ins :: int

record model_error_row = error_row +
  AsrModel :: string

record 'k meta_row =
  meta_SPKR :: string
  meta_Filename :: 'k
  meta_labels :: "(string \<times> string) list"

type_synonym 'k perf_row = "'k meta_row \<times> model_error_row"

text \<open>The inner join of \<open>DataFrame.merge\<close> / \<open>pd.merge\<close> on one key column: every pair of a
  left and a right row with equal keys, in the order of the left rows and, for one left row,
  in the order of the right rows. Rows without a partner are dropped; nothing is raised for
  them.\<close>

definition inner_merge :: "('a \<Rightarrow> 'k) \<Rightarrow> ('b \<Rightarrow> 'k) \<Rightarrow> 'a list \<Rightarrow> 'b list \<Rightarrow> ('a \<times> 'b) list" where
  "inner_merge lkey rkey left right =
     concat (map (\<lambda>l. map (Pair l) (filter (\<lambda>r. rkey r = lkey l) right)) left)"

definition tag_model :: "string \<Rightarrow> error_row \<Rightarrow> model_error_row" where
  "tag_model model r = error_row.extend r (model_error_row.fields model)"

text \<open>The nested loop of \<open>AsrPerformanceData.build_dataframe\<close> over the speaker groups and
  the ASR models: the list \<open>all_model_error_data\<close> of the tables read, each tagged with its
  model. Reading the files is outside the model: the table read for each pair of speaker
  group and ASR model is a parameter.\<close>

definition read_all_error_data ::
  "string list \<Rightarrow> string list \<Rightarrow> (string \<Rightarrow> string \<Rightarrow> error_row list) \<Rightarrow> model_error_row list list" where
  "read_all_error_data speaker_groups asr_models read_csv =
     concat (map (\<lambda>group. map (\<lambda>model. map (tag_model model) (read_csv group model))
                    asr_models) speaker_groups)"

text \<open>\<open>AsrPerformanceData.build_dataframe\<close>; the metadata table is a parameter. \<open>pd.concat\<close>
  raises ValueError when no file was read.\<close>

definition build_dataframe ::
  "'k meta_row list \<Rightarrow> string list \<Rightarrow> string list \<Rightarrow> (string \<Rightarrow> string \<Rightarrow> error_row list)
     \<Rightarrow> py_error + 'k perf_row list" where
  "build_dataframe meta_data speaker_groups asr_models read_csv =
     (let all_model_error_data = read_all_error_data speaker_groups asr_models read_csv
      in if all_model_error_data = [] then Inl ValueError
         else let combined_model_error_data = concat all_model_error_data
              in Inr (inner_merge meta_SPKR SPKR meta_data combined_model_error_data))"

section \<open>Merging and group WERs (evaluation/grouping_performance.py)\<close>

text \<open>A row of \<open>Grouping.get_data_with_group_labels()\<close>: the identifier, the feature values
  by column name, and the label column as the pair of its name (\<open>Cluster\<close> or \<open>Group\<close>) and
  the row's label.\<close>

record 'k labeled_row =
  Filename :: 'k
  features :: "(string \<times> fl) list"
  label :: "string \<times> string"

type_synonym 'k analysis_row = "'k perf_row \<times> 'k labeled_row"

text \<open>\<open>GroupingPerformance.merge_data\<close>: the performance data is the left table.\<close>

definition merge_data :: "'k labeled_row list \<Rightarrow> 'k perf_row list \<Rightarrow> 'k analysis_row list" where
  "merge_data grouping_data performance_data =
     inner_merge (\<lambda>p. meta_Filename (fst p)) Filename performance_data grouping_data"

definition row_Filename :: "'k analysis_row \<Rightarrow> 'k" where
  "row_Filename a = meta_Filename (fst (fst a))"

definition row_Model :: "'k analysis_row \<Rightarrow> string" where
  "row_Model a = AsrModel (snd (fst a))"

text \<open>The label columns of a merged row by name. A label column of the grouping that has the
  name of a metadata column is renamed by the merge: the left one gets the suffix \<open>_x\<close>, the
  right one \<open>_y\<close>.\<close>

definition merged_labels :: "'k analysis_row \<Rightarrow> (string \<times> string) list" where
  "merged_labels a =
     (let pm = meta_labels (fst (fst a)); n = fst (label (snd a)); v = snd (label (snd a))
      in if n \<in> set (map fst pm)
         then map (\<lambda>kv. (if fst kv = n then n @ ''_x'' else fst kv, snd kv)) pm @ [(n @ ''_y'', v)]
         else pm @ [(n, v)])"

text \<open>The object: the merged table, the names of its label columns (the string columns of
  the metadata and the label column of the grouping, renamed where the names clash) and the
  names of its float64 columns (the features). Grouping by the identifier or by a
  numeric column is outside the model.\<close>

record 'k GroupingPerformance =
  label_columns :: "string list"
  float_columns :: "string list"
  merged_data :: "'k analysis_row list"

text \<open>The cell of a row in a label column; a row without a cell of that name has a missing
  value there.\<close>

definition row_label :: "string \<Rightarrow> 'k analysis_row \<Rightarrow> string option" where
  "row_label label_fieldname a = map_of (merged_labels a) label_fieldname"

text \<open>The sums of one group, as \<open>agg('sum', numeric_only=True)\<close> computes them for the four
  count columns in int64, and the WER computed from them by the function applied to the row
  of the sums. The row is a float64 row when the table has a float64 column, else an int64
  row. The call passes \<open>Sub\<close>, \<open>Del\<close>, \<open>Ins\<close> for the parameters \<open>insertions\<close>, \<open>deletions\<close>,
  \<open>substitutions\<close>.\<close>

definition row_cell :: "bool \<Rightarrow> int \<Rightarrow> scalar" where
  "row_cell float_row s = (if float_row then NpFloat (Fin (of_int s)) else NpInt s)"

definition group_WER :: "bool \<Rightarrow> 'k analysis_row list \<Rightarrow> py_error + fl" where
  "group_WER float_row rows =
     (let wrd = int64 (sum_list (map (\<lambda>a. Wrd (snd (fst a))) rows));
          sub = int64 (sum_list (map (\<lambda>a. Sub (snd (fst a))) rows));
          del = int64 (sum_list (map (\<lambda>a. Del (snd (fst a))) rows));
          ins = int64 (sum_list (map (\<lambda>a. Ins (snd (fst a))) rows))
      in ebind (word_error_rate (row_cell float_row sub) (row_cell float_row del)
                  (row_cell float_row ins) (row_cell float_row wrd)) (\<lambda>w. Inr (to_fl w)))"

text \<open>\<open>GroupingPerformance.get_group_WERs\<close>: grouping by a column the table does not have
  raises KeyError; \<open>groupby\<close> leaves out the rows whose label is missing. When no group is
  left, the row-wise \<open>apply\<close> on the empty frame of sums gives back a frame instead of
  a column of WERs, no \<open>WER\<close> column results and its selection raises KeyError.\<close>

definition get_group_WERs :: "string \<Rightarrow> 'k GroupingPerformance \<Rightarrow> py_error + wer_row list" where
  "get_group_WERs label_fieldname gp =
     (if label_fieldname \<notin> set (label_columns gp) then Inl (KeyError label_fieldname)
      else let labeled = concat (map (\<lambda>a. case row_label label_fieldname a of
                                             None \<Rightarrow> [] | Some g \<Rightarrow> [((row_Model a, g), a)])
                                  (merged_data gp));
               grouped = groupby fst labeled
           in if grouped = [] then Inl (KeyError ''WER'')
              else emap (\<lambda>kg. ebind (group_WER (float_columns gp \<noteq> []) (map snd (snd kg)))
                            (\<lambda>w. Inr \<lparr>Model = fst (fst kg), GroupLabel = snd (fst kg), WER = w\<rparr>))
                     grouped)"

text \<open>\<open>GroupingPerformance.calculate_bias\<close>: the first component of the meta-measure's
  result on the group WERs.\<close>

definition calculate_bias ::
  "string \<Rightarrow> BiasMeasure \<Rightarrow> 'k GroupingPerformance \<Rightarrow> py_error + (string \<times> fl) list" where
  "calculate_bias label_fieldname bm gp =
     ebind (get_group_WERs label_fieldname gp) (\<lambda>wers.
     ebind (OverallBias_compute bm wers) (\<lambda>r. Inr (fst r)))"

text \<open>The claim's reading of the WER of a group: \<open>((S + D + I) / W) * 100\<close> on the sums of
  the counts as integers; for \<open>W = 0\<close> the quotient that numpy returns, NaN or an infinity. The
  rows of one model and one group, the sum of a count column over rows, the range of int64,
  the condition that the sums of a group and the sum of its three error counts lie in that
  range, and the returned table read as a map from (model, group) to the WER.\<close>

definition WER_spec :: "int \<Rightarrow> int \<Rightarrow> int \<Rightarrow> int \<Rightarrow> fl" where
  "WER_spec S D I W =
     (if W = 0 then fl_inf_of_sign (sgn (of_int (S + D + I)))
      else Fin ((of_int (S + D + I) / of_int W) * 100))"

definition group_rows :: "string \<Rightarrow> string \<Rightarrow> string \<Rightarrow> 'k analysis_row list \<Rightarrow> 'k analysis_row list" where
  "group_rows fieldname m g tbl =
     filter (\<lambda>a. row_Model a = m \<and> row_label fieldname a = Some g) tbl"

definition column_sum :: "(model_error_row \<Rightarrow> int) \<Rightarrow> 'k analysis_row list \<Rightarrow> int" where
  "column_sum col rows = sum_list (map (\<lambda>a. col (snd (fst a))) rows)"

definition in_int64 :: "int \<Rightarrow> bool" where
  "in_int64 x = (- (2 ^ 63) \<le> x \<and> x < 2 ^ 63)"

definition sums_in_int64 :: "'k analysis_row list \<Rightarrow> bool" where
  "sums_in_int64 rows =
     (in_int64 (column_sum Wrd rows) \<and> in_int64 (column_sum Sub rows)
      \<and> in_int64 (column_sum Del rows) \<and> in_int64 (column_sum Ins rows)
      \<and> in_int64 (column_sum Sub rows + column_sum Del rows + column_sum Ins rows))"

definition wer_table :: "wer_row list \<Rightarrow> (string \<times> string) \<Rightarrow> fl option" where
  "wer_table res = map_of (map (\<lambda>r. ((Model r, GroupLabel r), WER r)) res)"


section \<open>Feature tables (clustering/data_prep.py)\<close>

text \<open>
  The feature table is the data frame that \<open>pd.read_csv\<close> returns, which is a parameter of the
  model (reading and decoding the file are not modelled). It is kept by columns, as the
  source works on it: the length of the index and the columns in order, each with its name.
  A column holds numbers or objects; an object cell is a string or is missing. The names of
  the columns of a frame read from a file are pairwise distinct and every column has one cell
  per row.
\<close>

datatype column = NumCol "fl list" | StrCol "string option list"

record DataFrame =
  nrows :: nat
  cols :: "(string \<times> column) list"

definition columns :: "DataFrame \<Rightarrow> string list" where
  "columns df = map fst (cols df)"

text \<open>\<open>df[name]\<close> raises KeyError for a name that is not a column; \<open>df[name] = column\<close>
  replaces the column of that name where it stands or appends a new one.\<close>

definition getitem :: "DataFrame \<Rightarrow> string \<Rightarrow> py_error + column" where
  "getitem df name = (case map_of (cols df) name of None \<Rightarrow> Inl (KeyError name) | Some c \<Rightarrow> Inr c)"

definition setitem :: "DataFrame \<Rightarrow> string \<Rightarrow> column \<Rightarrow> DataFrame" where
  "setitem df name c = df\<lparr>cols := AList.update name c (cols df)\<rparr>"

text \<open>Arithmetic on columns is elementwise; on an object column it raises TypeError.\<close>

fun col_mul :: "column \<Rightarrow> column \<Rightarrow> py_error + column" where
  "col_mul (NumCol xs) (NumCol ys) = Inr (NumCol (map (\<lambda>xy. fl_mul (fst xy) (snd xy)) (zip xs ys)))"
| "col_mul _ _ = Inl TypeError"

fun col_div_scalar :: "column \<Rightarrow> fl \<Rightarrow> py_error + column" where
  "col_div_scalar (NumCol xs) k = Inr (NumCol (map (\<lambda>x. fl_div x k) xs))"
| "col_div_scalar _ _ = Inl TypeError"

text \<open>\<open>df.drop(columns=names, errors='ignore')\<close>: names that are no columns are ignored.\<close>

definition drop_columns :: "string list \<Rightarrow> DataFrame \<Rightarrow> DataFrame" where
  "drop_columns names df = df\<lparr>cols := filter (\<lambda>nc. fst nc \<notin> set names) (cols df)\<rparr>"

definition articulation_rate :: string where
  "articulation_rate = ''Mean Articulation Rate (phpm)''"

definition duration_fields :: "string list" where
  "duration_fields = [''Mean Duration O (s)'', ''Mean Duration E (s)'', ''Mean Duration A (s)'',
     ''Mean Duration u (s)'', ''Mean Duration @ (s)'']"

text \<open>One of the five hardcoded statements
  \<open>if c in columnlist: data[c] = data[c] * data['Mean Articulation Rate (phpm)'] / 60\<close>.
  The operands are read left to right, so a missing articulation-rate column raises KeyError
  after the duration column has been found.\<close>

definition engineer_field :: "string list \<Rightarrow> string \<Rightarrow> DataFrame \<Rightarrow> py_error + DataFrame" where
  "engineer_field columnlist c df =
     (if c \<in> set columnlist
      then ebind (getitem df c) (\<lambda>d.
           ebind (getitem df articulation_rate) (\<lambda>r.
           ebind (col_mul d r) (\<lambda>p.
           ebind (col_div_scalar p (Fin 60)) (\<lambda>q.
           Inr (setitem df c q)))))
      else Inr df)"

text \<open>The five statements in the order of the source: O, E, A, u, @.\<close>

definition engineer_features :: "DataFrame \<Rightarrow> py_error + DataFrame" where
  "engineer_features df =
     (let columnlist = columns df
      in ebind (engineer_field columnlist ''Mean Duration O (s)'' df) (\<lambda>df.
         ebind (engineer_field columnlist ''Mean Duration E (s)'' df) (\<lambda>df.
         ebind (engineer_field columnlist ''Mean Duration A (s)'' df) (\<lambda>df.
         ebind (engineer_field columnlist ''Mean Duration u (s)'' df) (\<lambda>df.
         engineer_field columnlist ''Mean Duration @ (s)'' df)))))"

type_synonym matrix = "fl list list"

record DataPrep =
  speaking_style :: string
  data :: DataFrame
  audiofile_ids :: column
  custom_features :: "(string \<times> (string \<times> string)) list"
  normalized_data :: "matrix option"

text \<open>The loop \<open>for csvfield in feature_dict\<close>: an entry of the caller's dictionary replaces
  the default of a field that the table has and is ignored otherwise.\<close>

definition override_feature ::
  "(string \<times> (string \<times> string)) list \<Rightarrow> string
     \<Rightarrow> (string \<times> (string \<times> string)) list \<Rightarrow> (string \<times> (string \<times> string)) list" where
  "override_feature feature_dict csvfield custom =
     (case map_of feature_dict csvfield of
        None \<Rightarrow> custom
      | Some v \<Rightarrow> if csvfield \<in> set (map fst custom) then AList.update csvfield v custom
                  else custom)"

text \<open>\<open>DataPrep.__init__\<close>. The parameter \<open>feature_dict\<close> is \<open>None\<close> (its default) or a
  dictionary, given as the list of its items; iterating over \<open>None\<close> raises TypeError. The
  feature fields are the columns after the first one.\<close>

definition DataPrep_init ::
  "DataFrame \<Rightarrow> string \<Rightarrow> (string \<times> (string \<times> string)) list option \<Rightarrow> string list
     \<Rightarrow> py_error + DataPrep" where
  "DataPrep_init read_csv style feature_dict dropcolumns =
     ebind (engineer_features read_csv) (\<lambda>df.
       let df = drop_columns dropcolumns df
       in ebind (getitem df ''Filename'') (\<lambda>ids.
            let csv_feature_fields = tl (columns df);
                custom = map (\<lambda>csvfield. (csvfield, (csvfield, ''Value''))) csv_feature_fields
            in case feature_dict of
                 None \<Rightarrow> Inl TypeError
               | Some fd \<Rightarrow>
                   Inr \<lparr>speaking_style = style, data = df, audiofile_ids = ids,
                        custom_features = fold (override_feature fd) (map fst fd) custom,
                        normalized_data = None\<rparr>))"

text \<open>\<open>df[names]\<close> with a list of names: the named columns in the order of the list; KeyError
  for the first name that is not a column.\<close>

fun select_columns :: "DataFrame \<Rightarrow> string list \<Rightarrow> py_error + (string \<times> column) list" where
  "select_columns df [] = Inr []"
| "select_columns df (n # ns) =
     ebind (getitem df n) (\<lambda>c. ebind (select_columns df ns) (\<lambda>cs. Inr ((n, c) # cs)))"

text \<open>\<open>DataPrep.check_normality\<close>; the Shapiro-Wilk test is a parameter that returns the
  statistic and the p-value of a column or raises. A row of the result is the feature, the
  statistic, the p-value and whether the p-value reaches the threshold. Without any row the
  frame of the results has no column \<open>Feature\<close> and \<open>set_index\<close> raises KeyError.\<close>

fun fl_ge :: "fl \<Rightarrow> fl \<Rightarrow> bool" where
  "fl_ge NaN _ = False"
| "fl_ge _ NaN = False"
| "fl_ge a b = fl_le b a"

fun check_rows ::
  "(column \<Rightarrow> py_error + fl \<times> fl) \<Rightarrow> fl \<Rightarrow> (string \<times> column) list
     \<Rightarrow> py_error + (string \<times> fl \<times> fl \<times> bool) list" where
  "check_rows shapiro threshold [] = Inr []"
| "check_rows shapiro threshold (nc # rest) =
     ebind (shapiro (snd nc)) (\<lambda>sp.
     ebind (check_rows shapiro threshold rest) (\<lambda>rs.
     Inr ((fst nc, fst sp, snd sp, fl_ge (snd sp) threshold) # rs)))"

definition check_normality ::
  "(column \<Rightarrow> py_error + fl \<times> fl) \<Rightarrow> string list \<Rightarrow> fl \<Rightarrow> DataPrep
     \<Rightarrow> py_error + (string \<times> fl \<times> fl \<times> bool) list" where
  "check_normality shapiro feature_columns threshold dp =
     ebind (select_columns (data dp) feature_columns) (\<lambda>selected.
     ebind (check_rows shapiro threshold selected) (\<lambda>results.
       if results = [] then Inl (KeyError ''Feature'') else Inr results))"

text \<open>\<open>DataPrep.normalize_data\<close>. A scaler is an object with a state of its own: its
  \<open>fit_transform\<close> takes the state and the selected columns and returns the scaled matrix and
  the fitted state, or raises. The state of the scaler is threaded next to the \<open>DataPrep\<close>.
  With \<open>check_normality\<close> set the test runs first; the next statement calls \<open>Series.any\<close>
  with a positional argument, which pandas 2 refuses with TypeError, so nothing is fitted.\<close>

definition normalize_data ::
  "(column \<Rightarrow> py_error + fl \<times> fl) \<Rightarrow> ('s \<Rightarrow> (string \<times> column) list \<Rightarrow> py_error + matrix \<times> 's)
     \<Rightarrow> 's \<Rightarrow> bool \<Rightarrow> DataPrep \<Rightarrow> py_error + DataPrep \<times> 's" where
  "normalize_data shapiro fit_transform scaler check dp =
     (let feature_columns = map fst (custom_features dp)
      in ebind (if check then ebind (check_normality shapiro feature_columns (Fin (5 / 100)) dp)
                                (\<lambda>shapiroWilk. Inl TypeError)
                else Inr ()) (\<lambda>_.
         ebind (select_columns (data dp) feature_columns) (\<lambda>selected.
         ebind (fit_transform scaler selected) (\<lambda>ms.
         Inr (dp\<lparr>normalized_data := Some (fst ms)\<rparr>, snd ms)))))"

text \<open>\<open>DataPrep.get_normalized_data\<close>: returns the value and the states of the \<open>DataPrep\<close> and
  of the scaler after the call.\<close>

definition get_normalized_data ::
  "(column \<Rightarrow> py_error + fl \<times> fl) \<Rightarrow> ('s \<Rightarrow> (string \<times> column) list \<Rightarrow> py_error + matrix \<times> 's)
     \<Rightarrow> 's \<Rightarrow> DataPrep \<Rightarrow> py_error + matrix option \<times> DataPrep \<times> 's" where
  "get_normalized_data shapiro fit_transform scaler dp =
     (if normalized_data dp = None
      then ebind (normalize_data shapiro fit_transform scaler False dp) (\<lambda>ds.
             Inr (normalized_data (fst ds), fst ds, snd ds))
      else Inr (normalized_data dp, dp, scaler))"

section \<open>Groupings (clustering/grouping.py)\<close>

record Grouping =
  data_prep :: DataPrep
  label_fieldname :: string
  group_labels :: "string list option"
  data_with_group_labels :: "DataFrame option"

definition Grouping_init :: "DataPrep \<Rightarrow> string \<Rightarrow> Grouping" where
  "Grouping_init dp fieldname =
     \<lparr>data_prep = dp, label_fieldname = fieldname, group_labels = None,
      data_with_group_labels = None\<rparr>"

text \<open>\<open>DataFrame.assign(name=values)\<close>. A frame without rows takes its index from a
  non-empty list of values: it gets as many rows as the list has values, and the cells of its
  other columns are missing. In a frame with rows, a list of values whose length is not the
  length of the index raises ValueError. The value \<open>None\<close> fills the column with missing
  cells.\<close>

fun missing_column :: "nat \<Rightarrow> column \<Rightarrow> column" where
  "missing_column k (NumCol xs) = NumCol (replicate k NaN)"
| "missing_column k (StrCol xs) = StrCol (replicate k None)"

definition reindex_empty :: "nat \<Rightarrow> DataFrame \<Rightarrow> DataFrame" where
  "reindex_empty k df =
     \<lparr>nrows = k, cols = map (\<lambda>nc. (fst nc, missing_column k (snd nc))) (cols df)\<rparr>"

definition assign :: "DataFrame \<Rightarrow> string \<Rightarrow> string list option \<Rightarrow> py_error + DataFrame" where
  "assign df name values =
     (case values of
        None \<Rightarrow> Inr (setitem df name (StrCol (replicate (nrows df) None)))
      | Some vs \<Rightarrow>
          if nrows df = 0 \<and> vs \<noteq> []
          then Inr (setitem (reindex_empty (length vs) df) name (StrCol (map Some vs)))
          else if length vs \<noteq> nrows df then Inl ValueError
          else Inr (setitem df name (StrCol (map Some vs))))"

definition add_labels :: "Grouping \<Rightarrow> py_error + Grouping" where
  "add_labels g =
     ebind (assign (data (data_prep g)) (label_fieldname g) (group_labels g)) (\<lambda>df.
       Inr (g\<lparr>data_with_group_labels := Some df\<rparr>))"

definition PredefinedGrouping_init :: "DataPrep \<Rightarrow> string list \<Rightarrow> py_error + Grouping" where
  "PredefinedGrouping_init dp labels =
     (let g = Grouping_init dp ''Group'';
          g = g\<lparr>group_labels := Some labels\<rparr>
      in add_labels g)"

text \<open>The claim's reading of the transform: a numeric duration column becomes, row by row,
  \<open>duration * articulationRate / 60\<close>; \<open>engineered S rate\<close> applies it to the columns whose name
  is in \<open>S\<close> and leaves every other column as it is. A table has numeric durations when each
  of its columns that is named like a hardcoded duration field holds numbers.\<close>

definition normalize_duration :: "fl list \<Rightarrow> column \<Rightarrow> column" where
  "normalize_duration rate c =
     (case c of NumCol d \<Rightarrow> NumCol (map (\<lambda>dr. fl_div (fl_mul (fst dr) (snd dr)) (Fin 60)) (zip d rate))
              | StrCol xs \<Rightarrow> StrCol xs)"

definition engineered :: "string set \<Rightarrow> fl list \<Rightarrow> (string \<times> column) list \<Rightarrow> (string \<times> column) list" where
  "engineered S rate cs =
     map (\<lambda>nc. if fst nc \<in> S then (fst nc, normalize_duration rate (snd nc)) else nc) cs"

definition numeric_durations :: "DataFrame \<Rightarrow> bool" where
  "numeric_durations df =
     list_all (\<lambda>nc. fst nc \<in> set duration_fields \<longrightarrow> (case snd nc of NumCol d \<Rightarrow> True | StrCol xs \<Rightarrow> False))
       (cols df)"

section \<open>Example tables\<close>

text \<open>Rows of the recognition output and of a labeled feature table, given by the
  identifier, the predefined group or the cluster, the model and the counts of words,
  substitutions, deletions and insertions.\<close>

definition mk_perf :: "'k \<Rightarrow> string \<Rightarrow> string \<Rightarrow> int \<Rightarrow> int \<Rightarrow> int \<Rightarrow> int \<Rightarrow> 'k perf_row" where
  "mk_perf k g m w s d i =
     (\<lparr>meta_SPKR = ''s'', meta_Filename = k, meta_labels = [(''Group'', g)]\<rparr>,
      \<lparr>SPKR = ''s'', Wrd = w, Sub = s, Del = d, Ins = i, AsrModel = m\<rparr>)"

definition mk_labeled :: "'k \<Rightarrow> string \<Rightarrow> 'k labeled_row" where
  "mk_labeled k c = \<lparr>Filename = k, features = [], label = (''Cluster'', c)\<rparr>"

text \<open>One cluster of one model whose counts sum to 2 substitutions, 1 deletion, 1 insertion
  and 20 words.\<close>

definition wer_example :: "nat analysis_row list" where
  "wer_example = merge_data [mk_labeled 1 ''0'', mk_labeled 2 ''0'']
     [mk_perf 1 ''A'' ''m'' 12 1 1 0, mk_perf 2 ''A'' ''m'' 8 1 0 1]"

text \<open>Feature rows with the identifiers 1, 2, 3 and recognition output with the identifiers
  2, 3, 4.\<close>

definition ids_features :: "nat labeled_row list" where
  "ids_features = [mk_labeled 1 ''0'', mk_labeled 2 ''1'', mk_labeled 3 ''0'']"

definition ids_recognition :: "nat perf_row list" where
  "ids_recognition = [mk_perf 2 ''A'' ''m'' 10 1 0 1, mk_perf 3 ''B'' ''m'' 10 1 1 0,
     mk_perf 4 ''B'' ''m'' 5 0 0 0]"

text \<open>One recording with recognition output of two ASR models.\<close>

definition dup_features :: "nat labeled_row list" where
  "dup_features = [mk_labeled 1 ''0'']"

definition dup_recognition :: "nat perf_row list" where
  "dup_recognition = [mk_perf 1 ''A'' ''m1'' 10 1 0 1, mk_perf 1 ''A'' ''m2'' 10 2 1 0]"

text \<open>Metadata of two speakers and one error-count file with two speakers, one of them
  without metadata.\<close>

definition one_meta :: "nat meta_row list" where
  "one_meta = [\<lparr>meta_SPKR = ''s1'', meta_Filename = 1, meta_labels = [(''Group'', ''A'')]\<rparr>,
               \<lparr>meta_SPKR = ''s2'', meta_Filename = 2, meta_labels = [(''Group'', ''B'')]\<rparr>]"

definition one_file :: "string \<Rightarrow> string \<Rightarrow> error_row list" where
  "one_file speaker_group asr_model = [\<lparr>SPKR = ''s2'', Wrd = 10, Sub = 1, Del = 0, Ins = 1\<rparr>,
                           \<lparr>SPKR = ''s3'', Wrd = 10, Sub = 0, Del = 0, Ins = 0\<rparr>]"

text \<open>Feature tables: one with an articulation-rate column and one duration field, one with
  a duration field and no articulation-rate column, and one whose duration field holds text.\<close>

definition src1 :: DataFrame where
  "src1 = \<lparr>nrows = 2, cols = [(''Filename'', StrCol [Some ''a'', Some ''b'']),
      (''Mean Articulation Rate (phpm)'', NumCol [Fin 600, Fin 300]),
      (''Mean Duration O (s)'', NumCol [Fin (1 / 10), Fin (2 / 10)]),
      (''Mean Pitch (Hz)'', NumCol [Fin 100, Fin 200])]\<rparr>"

definition src_text_duration :: DataFrame where
  "src_text_duration = \<lparr>nrows = 1, cols = [(''Filename'', StrCol [Some ''a'']),
      (''Mean Articulation Rate (phpm)'', NumCol [Fin 600]),
      (''Mean Duration O (s)'', StrCol [Some ''--undefined--''])]\<rparr>"

definition src_no_rate :: DataFrame where
  "src_no_rate = \<lparr>nrows = 1, cols = [(''Filename'', StrCol [Some ''a'']),
      (''Mean Duration O (s)'', NumCol [Fin (1 / 10)])]\<rparr>"

text \<open>A table without the identifier column, and \<open>DataPrep\<close> objects over the first example
  table without and with a stored normalized matrix.\<close>

definition src_no_id :: DataFrame where
  "src_no_id = \<lparr>nrows = 2, cols = [(''Recording'', StrCol [Some ''a'', Some ''b'']),
      (''Mean Pitch (Hz)'', NumCol [Fin 100, Fin 200])]\<rparr>"

definition dp1 :: DataPrep where
  "dp1 = \<lparr>speaking_style = ''read'', data = src1,
      audiofile_ids = StrCol [Some ''a'', Some ''b''],
      custom_features = [(''Mean Pitch (Hz)'', (''Pitch'', ''Hertz''))],
      normalized_data = None\<rparr>"

definition dp2 :: DataPrep where
  "dp2 = \<lparr>speaking_style = ''read'', data = src1,
      audiofile_ids = StrCol [Some ''a'', Some ''b''],
      custom_features = [(''Mean Pitch (Hz)'', (''Pitch'', ''Hertz''))],
      normalized_data = Some [[Fin 0], [Fin 1]]\<rparr>"

text \<open>A scaler that counts how often it was fitted, and a normality test that raises.\<close>

definition count_fits :: "nat \<Rightarrow> (string \<times> column) list \<Rightarrow> py_error + matrix \<times> nat" where
  "count_fits fits selected = Inr ([[Fin 1], [Fin 0]], Suc fits)"

definition no_test :: "column \<Rightarrow> py_error + fl \<times> fl" where
  "no_test c = Inl ValueError"




text \<open>Analysis tables as objects: the cluster with 20 words, and one cluster of two recordings with
  \<open>2 ^ 62\<close> words each.\<close>

definition wer_gp :: "nat GroupingPerformance" where
  "wer_gp = \<lparr>label_columns = [''Group'', ''Cluster''], float_columns = [],
             merged_data = wer_example\<rparr>"

definition overflow_gp :: "nat GroupingPerformance" where
  "overflow_gp = \<lparr>label_columns = [''Group'', ''Cluster''], float_columns = [],
     merged_data = merge_data [mk_labeled 1 ''0'', mk_labeled 2 ''0'']
       [mk_perf 1 ''A'' ''m'' (2 ^ 62) 1 0 0, mk_perf 2 ''A'' ''m'' (2 ^ 62) 1 0 0]\<rparr>"

text \<open>A feature table without any duration field and without an articulation-rate column, a
  table read from a file that holds only the header line, and the \<open>DataPrep\<close> loaded from
  the latter.\<close>

definition src_plain :: DataFrame where
  "src_plain = \<lparr>nrows = 2, cols = [(''Filename'', StrCol [Some ''a'', Some ''b'']),
      (''Mean Pitch (Hz)'', NumCol [Fin 100, Fin 200])]\<rparr>"

definition src_header_only :: DataFrame where
  "src_header_only = \<lparr>nrows = 0, cols = [(''Filename'', StrCol []),
      (''Mean Pitch (Hz)'', StrCol [])]\<rparr>"

definition dp0 :: DataPrep where
  "dp0 = \<lparr>speaking_style = ''read'', data = src_header_only, audiofile_ids = StrCol [],
      custom_features = [(''Mean Pitch (Hz)'', (''Mean Pitch (Hz)'', ''Value''))],
      normalized_data = None\<rparr>"

section \<open>Properties\<close>

subsection \<open>Sequencing of fallible steps\<close>

lemma ebind_Inr: "ebind (Inr x) f = f x"
  by (simp add: ebind_def)

lemma ebind_Inl: "ebind (Inl e) f = Inl e"
  by (simp add: ebind_def)

lemma emap_Inr:
  "(\<And>x. x \<in> set xs \<Longrightarrow> \<exists>y. f x = Inr y) \<Longrightarrow> emap f xs = Inr (map (\<lambda>x. projr (f x)) xs)"
proof (induction xs)
  case Nil
  show ?case by simp
next
  case (Cons x xs)
  from Cons.prems obtain y where y: "f x = Inr y" by auto
  have "emap f xs = Inr (map (\<lambda>x. projr (f x)) xs)"
    by (rule Cons.IH) (simp add: Cons.prems)
  with y show ?case by (simp add: ebind_Inr)
qed

subsection \<open>Series reductions on finite values\<close>








subsection \<open>OverallBias.compute\<close>








lemma groupby_distinct: "distinct (map fst (groupby key rows))"
  by (simp add: groupby_def comp_def)

lemma groupby_mem: "k \<in> key ` set rows \<Longrightarrow> (k, filter (\<lambda>r. key r = k) rows) \<in> set (groupby key rows)"
  by (auto simp add: groupby_def)














subsection \<open>RelDiffBias.compute_bias\<close>

text \<open>
  Claim C7 as stated fails for the reference 0. Called with two Python floats, the division
  raises ZeroDivisionError: nothing is returned and nothing propagates. Called with a numpy
  reference, as \<open>OverallBias.compute\<close> calls it, the group rate 1 against the reference 0
  gives the positive infinity, not NaN.
\<close>

theorem RelDiffBias_compute_bias_counterexample:
  "compute_bias RelDiffBias (PyFloat (Fin 1)) (PyFloat (Fin 0)) = Inl ZeroDivisionError
   \<and> compute_bias RelDiffBias (PyFloat (Fin 1)) (NpFloat (Fin 0)) = Inr (NpFloat PInf)"
  by (simp add: fl_sub_def fl_inf_of_sign_def)

text \<open>
  Claim C7, amended. For finite rates \<open>g\<close> and \<open>r\<close>, \<open>RelDiffBias.compute_bias\<close> computes
  \<open>(g - r) / r\<close> without a branch on \<open>r\<close>. With two Python floats it returns that quotient for
  \<open>r \<noteq> 0\<close> and raises ZeroDivisionError for \<open>r = 0\<close>. As soon as one operand is a numpy
  float64 it returns the quotient for \<open>r \<noteq> 0\<close>, and for \<open>r = 0\<close> the non-finite value of
  the numpy division unchanged: NaN for \<open>g = 0\<close>, the infinity of the sign of \<open>g\<close> otherwise.
\<close>

theorem RelDiffBias_compute_bias:
  "compute_bias RelDiffBias (PyFloat (Fin g)) (PyFloat (Fin r))
     = (if r = 0 then Inl ZeroDivisionError else Inr (PyFloat (Fin ((g - r) / r))))
   \<and> compute_bias RelDiffBias (PyFloat (Fin g)) (NpFloat (Fin r))
     = Inr (NpFloat (if r = 0 then (if g = 0 then NaN else if 0 < g then PInf else NInf)
                     else Fin ((g - r) / r)))
   \<and> compute_bias RelDiffBias (NpFloat (Fin g)) (NpFloat (Fin r))
     = Inr (NpFloat (if r = 0 then (if g = 0 then NaN else if 0 < g then PInf else NInf)
                     else Fin ((g - r) / r)))
   \<and> compute_bias RelDiffBias (NpFloat (Fin g)) (PyFloat (Fin r))
     = Inr (NpFloat (if r = 0 then (if g = 0 then NaN else if 0 < g then PInf else NInf)
                     else Fin ((g - r) / r)))"
  by (auto simp add: fl_sub_def fl_inf_of_sign_def sgn_if)

subsection \<open>GroupingPerformance.get_group_WERs\<close>

lemma int64_id: "in_int64 x \<Longrightarrow> int64 x = x"
  by (simp add: in_int64_def int64_def)

lemma int64_add_left: "int64 (int64 a + b) = int64 (a + b)"
proof -
  have "(int64 a + b + 2 ^ 63) mod 2 ^ 64 = ((a + 2 ^ 63) mod 2 ^ 64 + b) mod 2 ^ 64"
    by (simp add: int64_def algebra_simps)
  also have "\<dots> = (a + 2 ^ 63 + b) mod 2 ^ 64" by (rule mod_add_left_eq)
  finally show ?thesis by (simp add: int64_def algebra_simps)
qed

lemma word_error_rate_cells:
  assumes "in_int64 (s + d + i)"
  shows "word_error_rate (row_cell fr s) (row_cell fr d) (row_cell fr i) (row_cell fr w)
           = Inr (NpFloat (WER_spec s d i w))"
proof (cases fr)
  case True
  then show ?thesis
    by (auto simp add: word_error_rate_def row_cell_def ebind_def WER_spec_def
        fl_inf_of_sign_def sgn_if)
next
  case False
  have "int64 (int64 (s + d) + i) = s + d + i"
    using assms by (simp add: int64_add_left int64_id)
  with False show ?thesis
    by (auto simp add: word_error_rate_def row_cell_def ebind_def WER_spec_def
        fl_inf_of_sign_def sgn_if)
qed

lemma group_WER_spec:
  assumes "sums_in_int64 rows"
  shows "group_WER fr rows = Inr (WER_spec (column_sum Sub rows) (column_sum Del rows)
           (column_sum Ins rows) (column_sum Wrd rows))"
proof -
  from assms have i: "int64 (column_sum Wrd rows) = column_sum Wrd rows"
    "int64 (column_sum Sub rows) = column_sum Sub rows"
    "int64 (column_sum Del rows) = column_sum Del rows"
    "int64 (column_sum Ins rows) = column_sum Ins rows"
    and b: "in_int64 (column_sum Sub rows + column_sum Del rows + column_sum Ins rows)"
    by (simp_all add: sums_in_int64_def int64_id)
  have "group_WER fr rows
      = ebind (word_error_rate (row_cell fr (column_sum Sub rows)) (row_cell fr (column_sum Del rows))
                  (row_cell fr (column_sum Ins rows)) (row_cell fr (column_sum Wrd rows)))
          (\<lambda>w. Inr (to_fl w))"
    using i by (simp add: group_WER_def Let_def column_sum_def)
  then show ?thesis by (simp add: word_error_rate_cells [OF b] ebind_Inr)
qed

lemma word_error_rate_numpy:
  "\<exists>q. word_error_rate (row_cell fr s) (row_cell fr d) (row_cell fr i) (row_cell fr w) = Inr q"
  by (cases fr) (simp_all add: word_error_rate_def row_cell_def ebind_def)

lemma group_WER_returns: "\<exists>w. group_WER fr rows = Inr w"
proof -
  let ?w = "int64 (sum_list (map (\<lambda>a. Wrd (snd (fst a))) rows))"
  let ?s = "int64 (sum_list (map (\<lambda>a. Sub (snd (fst a))) rows))"
  let ?d = "int64 (sum_list (map (\<lambda>a. Del (snd (fst a))) rows))"
  let ?i = "int64 (sum_list (map (\<lambda>a. Ins (snd (fst a))) rows))"
  obtain q where "word_error_rate (row_cell fr ?s) (row_cell fr ?d) (row_cell fr ?i) (row_cell fr ?w) = Inr q"
    using word_error_rate_numpy by blast
  then show ?thesis by (simp add: group_WER_def Let_def ebind_Inr)
qed

lemma groupby_keys: "map fst (groupby key rows) = sort (remdups (map key rows))"
  by (simp add: groupby_def comp_def)

lemma map_of_map_snd:
  "map_of xs k = Some v \<Longrightarrow> map_of (map (\<lambda>kg. (fst kg, h (snd kg))) xs) k = Some (h v)"
  by (induction xs) (auto split: if_splits)

lemma map_of_groupby:
  "k \<in> key ` set rows \<Longrightarrow> map_of (groupby key rows) k = Some (filter (\<lambda>r. key r = k) rows)"
  by (rule map_of_is_SomeI [OF groupby_distinct groupby_mem])

lemma labeled_set:
  "set (concat (map (\<lambda>a. case row_label f a of None \<Rightarrow> [] | Some g \<Rightarrow> [((row_Model a, g), a)]) tbl))
     = {((row_Model b, h), b) | b h. b \<in> set tbl \<and> row_label f b = Some h}"
  by (auto split: option.splits)

lemma labeled_group:
  "map snd (filter (\<lambda>p. fst p = (m, g))
      (concat (map (\<lambda>a. case row_label f a of None \<Rightarrow> [] | Some g \<Rightarrow> [((row_Model a, g), a)]) tbl)))
     = group_rows f m g tbl"
  by (induction tbl) (auto simp add: group_rows_def split: option.splits)

text \<open>
  Claim C2 as stated fails when a sum leaves the range of int64: the sums of a group are
  computed in int64 and wrap around. For one cluster of two recordings with \<open>2 ^ 62\<close> words and
  one substitution each, the sum of the words wraps to \<open>- (2 ^ 63)\<close> and the returned WER is
  negative, while \<open>((S + D + I) / W) * 100\<close> on the sums is positive.
\<close>

theorem get_group_WERs_overflow_counterexample:
  "get_group_WERs ''Cluster'' overflow_gp
     = Inr [\<lparr>Model = ''m'', GroupLabel = ''0'', WER = Fin (- (200 / 2 ^ 63))\<rparr>]
   \<and> WER_spec (column_sum Sub (group_rows ''Cluster'' ''m'' ''0'' (merged_data overflow_gp)))
         (column_sum Del (group_rows ''Cluster'' ''m'' ''0'' (merged_data overflow_gp)))
         (column_sum Ins (group_rows ''Cluster'' ''m'' ''0'' (merged_data overflow_gp)))
         (column_sum Wrd (group_rows ''Cluster'' ''m'' ''0'' (merged_data overflow_gp)))
       = Fin (200 / 2 ^ 63)"
proof -
  have 1: "get_group_WERs ''Cluster'' overflow_gp
     = Inr [\<lparr>Model = ''m'', GroupLabel = ''0'', WER = Fin (- (200 / 2 ^ 63))\<rparr>]"
    by (simp add: get_group_WERs_def overflow_gp_def merge_data_def inner_merge_def mk_perf_def
        mk_labeled_def row_label_def row_Model_def merged_labels_def groupby_def Let_def
        group_WER_def int64_def word_error_rate_def row_cell_def ebind_def)
  have 2: "WER_spec (column_sum Sub (group_rows ''Cluster'' ''m'' ''0'' (merged_data overflow_gp)))
         (column_sum Del (group_rows ''Cluster'' ''m'' ''0'' (merged_data overflow_gp)))
         (column_sum Ins (group_rows ''Cluster'' ''m'' ''0'' (merged_data overflow_gp)))
         (column_sum Wrd (group_rows ''Cluster'' ''m'' ''0'' (merged_data overflow_gp)))
       = Fin (200 / 2 ^ 63)"
    by (simp add: overflow_gp_def merge_data_def inner_merge_def mk_perf_def mk_labeled_def
        group_rows_def row_label_def row_Model_def merged_labels_def Let_def column_sum_def
        WER_spec_def)
  from 1 2 show ?thesis by blast
qed

text \<open>
  Claim C2, amended by the bound on the sums. For an analysis table that has the label column
  \<open>f\<close>, and a row \<open>a\<close> of it with the label \<open>g\<close> whose group has sums in the range of int64 (the
  four sums of the counts and the sum of the three error counts), \<open>get_group_WERs\<close> returns a
  table with exactly one row per pair (model, group) occurring in the data, and the WER of
  the pair of \<open>a\<close> is \<open>((S + D + I) / W) * 100\<close> for the sums \<open>S\<close>, \<open>D\<close>, \<open>I\<close>, \<open>W\<close> of the
  substitution, deletion, insertion and word counts over the rows of that model and group.
  The witness evaluates a group with the sums 2, 1, 1 and 20 to the WER 20.
\<close>

theorem get_group_WERs_spec:
  assumes "f \<in> set (label_columns gp)" and "a \<in> set (merged_data gp)"
    and "row_label f a = Some g"
    and "sums_in_int64 (group_rows f (row_Model a) g (merged_data gp))"
  shows "\<exists>res. get_group_WERs f gp = Inr res
           \<and> distinct (map (\<lambda>r. (Model r, GroupLabel r)) res)
           \<and> set (map (\<lambda>r. (Model r, GroupLabel r)) res)
               = {(row_Model b, h) | b h. b \<in> set (merged_data gp) \<and> row_label f b = Some h}
           \<and> wer_table res (row_Model a, g) =
               Some (let rows = group_rows f (row_Model a) g (merged_data gp)
                     in WER_spec (column_sum Sub rows) (column_sum Del rows) (column_sum Ins rows)
                          (column_sum Wrd rows))"
proof -
  let ?tbl = "merged_data gp"
  let ?fr = "float_columns gp \<noteq> []"
  let ?lab = "concat (map (\<lambda>a. case row_label f a of None \<Rightarrow> [] | Some g \<Rightarrow> [((row_Model a, g), a)]) ?tbl)"
  let ?gs = "groupby fst ?lab"
  let ?W = "\<lambda>ps. projr (group_WER ?fr (map snd ps))"
  let ?row = "\<lambda>kg. ebind (group_WER ?fr (map snd (snd kg)))
                 (\<lambda>w. Inr \<lparr>Model = fst (fst kg), GroupLabel = snd (fst kg), WER = w\<rparr>)"
  let ?res = "map (\<lambda>kg. \<lparr>Model = fst (fst kg), GroupLabel = snd (fst kg), WER = ?W (snd kg)\<rparr>) ?gs"
  let ?k = "(row_Model a, g)"
  have row: "?row kg = Inr \<lparr>Model = fst (fst kg), GroupLabel = snd (fst kg), WER = ?W (snd kg)\<rparr>" for kg
  proof -
    obtain w where "group_WER ?fr (map snd (snd kg)) = Inr w" using group_WER_returns by blast
    then show ?thesis by (simp add: ebind_Inr)
  qed
  have mem: "(?k, a) \<in> set ?lab"
    using assms(2,3) by (simp only: labeled_set) blast
  then have kin: "?k \<in> fst ` set ?lab" by force
  have ne: "?gs \<noteq> []"
    using groupby_mem [OF kin] by auto
  have "emap ?row ?gs = Inr (map (\<lambda>kg. projr (?row kg)) ?gs)"
    by (rule emap_Inr) (simp add: row)
  then have e: "emap ?row ?gs = Inr ?res" by (simp add: row)
  have r: "get_group_WERs f gp = Inr ?res"
    using assms(1) ne e by (simp add: get_group_WERs_def Let_def)
  have k: "map (\<lambda>r. (Model r, GroupLabel r)) ?res = map fst ?gs"
    by (simp add: comp_def)
  have d: "distinct (map (\<lambda>r. (Model r, GroupLabel r)) ?res)"
    by (simp only: k groupby_distinct)
  have "set (map fst ?gs) = fst ` set ?lab"
    by (simp only: groupby_keys) simp
  also have "\<dots> = {(row_Model b, h) | b h. b \<in> set ?tbl \<and> row_label f b = Some h}"
    by (simp only: labeled_set) force
  finally have s: "set (map (\<lambda>r. (Model r, GroupLabel r)) ?res)
      = {(row_Model b, h) | b h. b \<in> set ?tbl \<and> row_label f b = Some h}"
    by (simp only: k)
  have t: "map (\<lambda>r. ((Model r, GroupLabel r), WER r)) ?res = map (\<lambda>kg. (fst kg, ?W (snd kg))) ?gs"
    by (simp add: comp_def)
  have "map_of ?gs ?k = Some (filter (\<lambda>p. fst p = ?k) ?lab)"
    by (rule map_of_groupby [OF kin])
  then have "map_of (map (\<lambda>kg. (fst kg, ?W (snd kg))) ?gs) ?k
      = Some (?W (filter (\<lambda>p. fst p = ?k) ?lab))"
    by (rule map_of_map_snd)
  then have "wer_table ?res ?k = Some (projr (group_WER ?fr (group_rows f (row_Model a) g ?tbl)))"
    by (simp only: wer_table_def t labeled_group)
  then have w: "wer_table ?res ?k = Some (let rows = group_rows f (row_Model a) g ?tbl
                     in WER_spec (column_sum Sub rows) (column_sum Del rows) (column_sum Ins rows)
                          (column_sum Wrd rows))"
    by (simp add: group_WER_spec [OF assms(4)] Let_def)
  from r d s w show ?thesis by blast
qed

lemma wer_example_eq: "wer_example =
  [(mk_perf 1 ''A'' ''m'' 12 1 1 0, mk_labeled 1 ''0''), (mk_perf 2 ''A'' ''m'' 8 1 0 1, mk_labeled 2 ''0'')]"
  by (simp add: wer_example_def merge_data_def inner_merge_def mk_perf_def mk_labeled_def)

theorem get_group_WERs_spec_witness:
  "''Cluster'' \<in> set (label_columns wer_gp) \<and> hd (merged_data wer_gp) \<in> set (merged_data wer_gp)
   \<and> row_label ''Cluster'' (hd (merged_data wer_gp)) = Some ''0''
   \<and> sums_in_int64 (group_rows ''Cluster'' (row_Model (hd (merged_data wer_gp))) ''0'' (merged_data wer_gp))
   \<and> (\<exists>res. get_group_WERs ''Cluster'' wer_gp = Inr res \<and>
      wer_table res (''m'', ''0'') = Some (WER_spec 2 1 1 20)) \<and> WER_spec 2 1 1 20 = Fin 20"
proof -
  have md: "merged_data wer_gp = wer_example" by (simp add: wer_gp_def)
  have h: "''Cluster'' \<in> set (label_columns wer_gp)" by (simp add: wer_gp_def)
  have m: "hd (merged_data wer_gp) \<in> set (merged_data wer_gp)" by (simp add: md wer_example_eq)
  have k: "row_Model (hd (merged_data wer_gp)) = ''m''"
    by (simp add: md wer_example_eq row_Model_def mk_perf_def)
  have l: "row_label ''Cluster'' (hd (merged_data wer_gp)) = Some ''0''"
    by (simp add: md wer_example_eq row_label_def merged_labels_def mk_perf_def mk_labeled_def)
  have g: "group_rows ''Cluster'' ''m'' ''0'' (merged_data wer_gp) = wer_example"
    by (simp add: md wer_example_eq group_rows_def row_Model_def row_label_def merged_labels_def mk_perf_def mk_labeled_def)
  have c: "column_sum Sub wer_example = 2" "column_sum Del wer_example = 1"
     "column_sum Ins wer_example = 1" "column_sum Wrd wer_example = 20"
    by (simp_all add: wer_example_eq column_sum_def mk_perf_def)
  have b: "sums_in_int64 (group_rows ''Cluster'' (row_Model (hd (merged_data wer_gp))) ''0'' (merged_data wer_gp))"
    by (simp add: k g sums_in_int64_def c in_int64_def)
  have v: "WER_spec 2 1 1 20 = Fin 20" by (simp add: WER_spec_def)
  from get_group_WERs_spec [OF h m l b] show ?thesis
    using h m l b v by (auto simp add: k g c Let_def)
qed

subsection \<open>Inner joins\<close>

lemma set_inner_merge:
  "set (inner_merge lkey rkey left right) = {(l, r). l \<in> set left \<and> r \<in> set right \<and> rkey r = lkey l}"
  by (auto simp add: inner_merge_def)

text \<open>
  Claim C3. The identifiers of the merged table are exactly those that occur in both the
  labeled feature table and the recognition output; \<open>merge_data\<close> is total, so no error is
  raised for an identifier without a partner. For the identifiers \<open>{1, 2, 3}\<close> and
  \<open>{2, 3, 4}\<close> the merged table has exactly the identifiers \<open>{2, 3}\<close>.
\<close>

theorem merge_data_keys:
  "row_Filename ` set (merge_data grouping_data performance_data)
     = Filename ` set grouping_data \<inter> (\<lambda>p. meta_Filename (fst p)) ` set performance_data
   \<and> row_Filename ` set (merge_data ids_features ids_recognition) = {2, 3}"
proof
  show "row_Filename ` set (merge_data grouping_data performance_data)
     = Filename ` set grouping_data \<inter> (\<lambda>p. meta_Filename (fst p)) ` set performance_data"
    by (auto simp add: merge_data_def set_inner_merge row_Filename_def image_iff) force+
  show "row_Filename ` set (merge_data ids_features ids_recognition) = {2, 3}"
    by (auto simp add: merge_data_def inner_merge_def row_Filename_def ids_features_def
        ids_recognition_def mk_perf_def mk_labeled_def)
qed

lemma length_inner_merge:
  "length (inner_merge lkey rkey left right)
     = sum_list (map (\<lambda>l. length (filter (\<lambda>r. rkey r = lkey l) right)) left)"
  by (simp add: inner_merge_def length_concat comp_def)

lemma distinct_count_le_1:
  "distinct (map key xs) \<Longrightarrow> length (filter (\<lambda>x. key x = k) xs) \<le> 1"
  by (induction xs) (auto simp add: filter_empty_conv image_iff)

lemma sum_list_le_length:
  "(\<And>x. x \<in> set xs \<Longrightarrow> f x \<le> (1::nat)) \<Longrightarrow> sum_list (map f xs) \<le> length xs"
proof (induction xs)
  case Nil show ?case by simp
next
  case (Cons a xs)
  have "f a \<le> 1" by (rule Cons.prems) simp
  moreover have "sum_list (map f xs) \<le> length xs"
  proof (rule Cons.IH)
    fix x assume "x \<in> set xs"
    then have "x \<in> set (a # xs)" by simp
    then show "f x \<le> 1" by (rule Cons.prems)
  qed
  ultimately show ?case by simp
qed

lemma inner_merge_le_left:
  "distinct (map rkey right) \<Longrightarrow> length (inner_merge lkey rkey left right) \<le> length left"
  unfolding length_inner_merge by (rule sum_list_le_length) (rule distinct_count_le_1)

lemma length_inner_merge_sym:
  "length (inner_merge lkey rkey left right) = length (inner_merge rkey lkey right left)"
proof (induction left)
  case Nil
  show ?case by (simp add: length_inner_merge)
next
  case (Cons l left)
  have "sum_list (map (\<lambda>r. length (filter (\<lambda>x. lkey x = rkey r) (l # left))) right)
      = length (filter (\<lambda>r. rkey r = lkey l) right)
        + sum_list (map (\<lambda>r. length (filter (\<lambda>x. lkey x = rkey r) left)) right)"
    by (induction right) auto
  then show ?case using Cons.IH by (simp add: length_inner_merge)
qed

lemma inner_merge_le_right:
  "distinct (map lkey left) \<Longrightarrow> length (inner_merge lkey rkey left right) \<le> length right"
  by (subst length_inner_merge_sym) (rule inner_merge_le_left)

lemma build_dataframe_eq:
  "build_dataframe meta_data speaker_groups asr_models read_csv =
     (if read_all_error_data speaker_groups asr_models read_csv = [] then Inl ValueError
      else Inr (inner_merge meta_SPKR SPKR meta_data
                  (concat (read_all_error_data speaker_groups asr_models read_csv))))"
  by (simp add: build_dataframe_def Let_def)

text \<open>
  Claim C9 as stated fails: a recording with recognition output of two ASR models is one row
  of the feature table and two rows of the recognition output, and both rows survive the
  join, so the merged table has two rows while the smaller input has one.
\<close>

theorem join_row_count_counterexample:
  "\<not> length (merge_data dup_features dup_recognition)
       \<le> min (length dup_features) (length dup_recognition)"
  by (simp add: merge_data_def inner_merge_def dup_features_def dup_recognition_def
      mk_perf_def mk_labeled_def)

text \<open>
  Claim C9, amended. The number of rows of an inner join is at most the number of rows of
  one input whenever the join keys of the other input are pairwise distinct. This holds for
  the merge of the labeled feature rows with the recognition output (key \<open>Filename\<close>) and
  for the join of the metadata onto the concatenated error data (key \<open>SPKR\<close>).
\<close>

theorem join_row_count_distinct_keys:
  "(distinct (map Filename grouping_data) \<longrightarrow>
      length (merge_data grouping_data performance_data) \<le> length performance_data)
   \<and> (distinct (map (\<lambda>p. meta_Filename (fst p)) performance_data) \<longrightarrow>
      length (merge_data grouping_data performance_data) \<le> length grouping_data)
   \<and> (build_dataframe meta_data speaker_groups asr_models read_csv = Inr df \<longrightarrow>
       (distinct (map SPKR (concat (read_all_error_data speaker_groups asr_models read_csv))) \<longrightarrow>
          length df \<le> length meta_data)
       \<and> (distinct (map meta_SPKR meta_data) \<longrightarrow>
          length df \<le> length (concat (read_all_error_data speaker_groups asr_models read_csv))))"
  by (auto simp add: merge_data_def build_dataframe_eq inner_merge_le_left inner_merge_le_right
      split: if_splits)

lemma one_all: "concat (read_all_error_data [''g''] [''m''] one_file) =
   [\<lparr>SPKR = ''s2'', Wrd = 10, Sub = 1, Del = 0, Ins = 1, AsrModel = ''m''\<rparr>,
    \<lparr>SPKR = ''s3'', Wrd = 10, Sub = 0, Del = 0, Ins = 0, AsrModel = ''m''\<rparr>]"
  by (simp add: read_all_error_data_def one_file_def tag_model_def error_row.extend_def
      model_error_row.fields_def)

theorem join_row_count_distinct_keys_witness:
  "distinct (map Filename ids_features)
   \<and> distinct (map (\<lambda>p. meta_Filename (fst p)) ids_recognition)
   \<and> length (merge_data ids_features ids_recognition) \<le> min 3 3
   \<and> (\<exists>df. build_dataframe one_meta [''g''] [''m''] one_file = Inr df
        \<and> distinct (map SPKR (concat (read_all_error_data [''g''] [''m''] one_file)))
        \<and> distinct (map meta_SPKR one_meta)
        \<and> length df \<le> min 2 2)"
proof -
  have a: "distinct (map Filename ids_features)"
    by (simp add: ids_features_def mk_labeled_def)
  have b: "distinct (map (\<lambda>p. meta_Filename (fst p)) ids_recognition)"
    by (simp add: ids_recognition_def mk_perf_def)
  have l: "length ids_features = 3" "length ids_recognition = 3" "length one_meta = 2"
    by (simp_all add: ids_features_def ids_recognition_def one_meta_def)
  have c: "distinct (map SPKR (concat (read_all_error_data [''g''] [''m''] one_file)))"
    by (simp add: one_all)
  have d: "distinct (map meta_SPKR one_meta)" by (simp add: one_meta_def)
  have n: "read_all_error_data [''g''] [''m''] one_file \<noteq> []"
    by (simp add: read_all_error_data_def)
  then obtain df where e: "build_dataframe one_meta [''g''] [''m''] one_file = Inr df"
    by (simp add: build_dataframe_eq)
  have m: "length (concat (read_all_error_data [''g''] [''m''] one_file)) = 2"
    by (simp add: one_all)
  from join_row_count_distinct_keys [of ids_features ids_recognition one_meta "[''g'']" "[''m'']" one_file df]
  show ?thesis using a b c d e l m by auto
qed

subsection \<open>Duration normalisation in DataPrep.__init__\<close>

lemma engineered_empty: "engineered {} rate cs = cs"
  by (simp add: engineered_def)

lemma keys_engineered: "map fst (engineered S rate cs) = map fst cs"
  by (simp add: engineered_def comp_def)

lemma map_of_engineered:
  "map_of (engineered S rate cs) k
     = (if k \<in> S then map_option (normalize_duration rate) (map_of cs k) else map_of cs k)"
  by (induction cs) (auto simp add: engineered_def)

lemma engineered_absent:
  "c \<notin> fst ` set cs \<Longrightarrow> engineered (insert c S) rate cs = engineered S rate cs"
  by (induction cs) (auto simp add: engineered_def)

lemma update_engineered:
  "distinct (map fst cs) \<Longrightarrow> map_of cs c = Some col \<Longrightarrow> c \<notin> S \<Longrightarrow>
     AList.update c (normalize_duration rate col) (engineered S rate cs)
       = engineered (insert c S) rate cs"
proof (induction cs)
  case Nil then show ?case by simp
next
  case (Cons kv cs)
  obtain k v where kv: "kv = (k, v)" by (cases kv)
  show ?case
  proof (cases "k = c")
    case True
    with Cons.prems kv have "v = col" and "c \<notin> fst ` set cs" by auto
    then have "engineered (insert c S) rate cs = engineered S rate cs"
      by (simp add: engineered_absent)
    then show ?thesis using True kv \<open>v = col\<close> Cons.prems(3)
      by (simp add: engineered_def)
  next
    case False
    with Cons.prems kv have "distinct (map fst cs)" "map_of cs c = Some col" by auto
    then have "AList.update c (normalize_duration rate col) (engineered S rate cs)
       = engineered (insert c S) rate cs" using Cons.prems(3) by (rule Cons.IH)
    then show ?thesis using False kv by (simp add: engineered_def)
  qed
qed

lemma engineer_field_step:
  assumes d: "distinct (map fst cs)"
    and r: "map_of cs articulation_rate = Some (NumCol rate)"
    and n: "list_all (\<lambda>nc. fst nc = c \<longrightarrow> (case snd nc of NumCol d \<Rightarrow> True | StrCol xs \<Rightarrow> False)) cs"
    and a: "articulation_rate \<notin> S" and c: "c \<notin> S"
  shows "engineer_field (map fst cs) c \<lparr>nrows = m, cols = engineered S rate cs\<rparr>
           = Inr \<lparr>nrows = m, cols = engineered (insert c S) rate cs\<rparr>"
proof (cases "c \<in> set (map fst cs)")
  case False
  then show ?thesis by (simp add: engineer_field_def engineered_absent)
next
  case True
  then obtain col where col: "map_of cs c = Some col"
    by (metis map_of_eq_None_iff not_Some_eq set_map)
  then have "(c, col) \<in> set cs" by (rule map_of_SomeD)
  with n obtain xs where xs: "col = NumCol xs"
    by (cases col) (auto simp add: list_all_iff)
  have g1: "getitem \<lparr>nrows = m, cols = engineered S rate cs\<rparr> c = Inr (NumCol xs)"
    using col xs c by (simp add: getitem_def map_of_engineered)
  have g2: "getitem \<lparr>nrows = m, cols = engineered S rate cs\<rparr> articulation_rate = Inr (NumCol rate)"
    using r a by (simp add: getitem_def map_of_engineered)
  have m: "col_mul (NumCol xs) (NumCol rate) = Inr (NumCol (map (\<lambda>xy. fl_mul (fst xy) (snd xy)) (zip xs rate)))"
    by simp
  have t: "col_div_scalar (NumCol (map (\<lambda>xy. fl_mul (fst xy) (snd xy)) (zip xs rate))) (Fin 60)
      = Inr (normalize_duration rate col)"
    by (simp add: xs normalize_duration_def)
  have u: "AList.update c (normalize_duration rate col) (engineered S rate cs)
       = engineered (insert c S) rate cs"
    using d col c by (rule update_engineered)
  have "engineer_field (map fst cs) c \<lparr>nrows = m, cols = engineered S rate cs\<rparr>
      = Inr (setitem \<lparr>nrows = m, cols = engineered S rate cs\<rparr> c (normalize_duration rate col))"
    using True by (simp only: engineer_field_def ebind_def g1 g2 m t sum.case if_True)
  then show ?thesis by (simp add: setitem_def u)
qed

lemma numeric_durations_field:
  "numeric_durations \<lparr>nrows = m, cols = cs\<rparr> \<Longrightarrow> c \<in> set duration_fields \<Longrightarrow>
     list_all (\<lambda>nc. fst nc = c \<longrightarrow> (case snd nc of NumCol d \<Rightarrow> True | StrCol xs \<Rightarrow> False)) cs"
  by (auto simp add: numeric_durations_def list_all_iff)

lemma engineer_features_eq:
  assumes d: "distinct (columns df)"
    and r: "map_of (cols df) articulation_rate = Some (NumCol rate)"
    and n: "numeric_durations df"
  shows "engineer_features df = Inr (df\<lparr>cols := engineered (set duration_fields) rate (cols df)\<rparr>)"
proof -
  obtain m cs where df: "df = \<lparr>nrows = m, cols = cs\<rparr>" by (cases df) simp
  from d df have d': "distinct (map fst cs)" by (simp add: columns_def)
  from r df have r': "map_of cs articulation_rate = Some (NumCol rate)" by simp
  from n df have n': "numeric_durations \<lparr>nrows = m, cols = cs\<rparr>" by simp
  note nf = numeric_durations_field [OF n']
  let ?O = "''Mean Duration O (s)''" and ?E = "''Mean Duration E (s)''"
    and ?A = "''Mean Duration A (s)''" and ?u = "''Mean Duration u (s)''"
    and ?at = "''Mean Duration @ (s)''"
  have s1: "engineer_field (map fst cs) ?O \<lparr>nrows = m, cols = cs\<rparr>
      = Inr \<lparr>nrows = m, cols = engineered {?O} rate cs\<rparr>"
    using engineer_field_step [OF d' r' nf, of ?O "{}" m]
    by (simp add: duration_fields_def articulation_rate_def engineered_empty)
  have s2: "engineer_field (map fst cs) ?E \<lparr>nrows = m, cols = engineered {?O} rate cs\<rparr>
      = Inr \<lparr>nrows = m, cols = engineered {?E, ?O} rate cs\<rparr>"
    using engineer_field_step [OF d' r' nf, of ?E "{?O}" m]
    by (simp add: duration_fields_def articulation_rate_def)
  have s3: "engineer_field (map fst cs) ?A \<lparr>nrows = m, cols = engineered {?E, ?O} rate cs\<rparr>
      = Inr \<lparr>nrows = m, cols = engineered {?A, ?E, ?O} rate cs\<rparr>"
    using engineer_field_step [OF d' r' nf, of ?A "{?E, ?O}" m]
    by (simp add: duration_fields_def articulation_rate_def)
  have s4: "engineer_field (map fst cs) ?u \<lparr>nrows = m, cols = engineered {?A, ?E, ?O} rate cs\<rparr>
      = Inr \<lparr>nrows = m, cols = engineered {?u, ?A, ?E, ?O} rate cs\<rparr>"
    using engineer_field_step [OF d' r' nf, of ?u "{?A, ?E, ?O}" m]
    by (simp add: duration_fields_def articulation_rate_def)
  have s5: "engineer_field (map fst cs) ?at \<lparr>nrows = m, cols = engineered {?u, ?A, ?E, ?O} rate cs\<rparr>
      = Inr \<lparr>nrows = m, cols = engineered {?at, ?u, ?A, ?E, ?O} rate cs\<rparr>"
    using engineer_field_step [OF d' r' nf, of ?at "{?u, ?A, ?E, ?O}" m]
    by (simp add: duration_fields_def articulation_rate_def)
  have S: "{?at, ?u, ?A, ?E, ?O} = set duration_fields"
    by (auto simp add: duration_fields_def)
  have "engineer_features \<lparr>nrows = m, cols = cs\<rparr>
      = Inr \<lparr>nrows = m, cols = engineered {?at, ?u, ?A, ?E, ?O} rate cs\<rparr>"
    by (simp only: engineer_features_def Let_def columns_def DataFrame.simps s1 s2 s3 s4 s5 ebind_Inr)
  then show ?thesis by (simp only: df S DataFrame.simps DataFrame.update_convs)
qed

lemma normalize_duration_Fin:
  "normalize_duration (map Fin rs) (NumCol (map Fin ds))
     = NumCol (map (\<lambda>dr. Fin (fst dr * snd dr / 60)) (zip ds rs))"
  by (simp add: normalize_duration_def zip_map_map comp_def split_def)

lemma DataPrep_init_data:
  "engineer_features src = Inr df \<Longrightarrow> DataPrep_init src style fd drops = Inr dp \<Longrightarrow>
     data dp = drop_columns drops df"
  by (auto simp add: DataPrep_init_def ebind_def Let_def split: sum.splits option.splits)

text \<open>
  Claim C8 as stated fails on a source that has a duration field and no articulation-rate
  column: the field is present, no transform is applied to it, and loading raises KeyError.
  It fails as well on a source whose duration field holds text: the product raises TypeError.
\<close>

theorem duration_transform_counterexample:
  "DataPrep_init src_no_rate ''read'' (Some []) []
     = Inl (KeyError ''Mean Articulation Rate (phpm)'')
   \<and> DataPrep_init src_text_duration ''read'' (Some []) [] = Inl TypeError"
  by (simp add: DataPrep_init_def engineer_features_def engineer_field_def ebind_def getitem_def
      src_no_rate_def src_text_duration_def columns_def articulation_rate_def Let_def)

lemma engineered_none: "S \<inter> fst ` set cs = {} \<Longrightarrow> engineered S rate cs = cs"
  by (induction cs) (auto simp add: engineered_def)

lemma engineer_features_no_durations:
  "set duration_fields \<inter> set (columns df) = {} \<Longrightarrow> engineer_features df = Inr df"
  by (simp add: engineer_features_def engineer_field_def Let_def duration_fields_def ebind_Inr)

text \<open>
  Claim C8, amended. Take a feature source with pairwise distinct column names whose present
  duration fields are numeric and which, if any of the hardcoded duration fields is present,
  has a numeric articulation-rate column. Then the transform step returns normally; it
  replaces each hardcoded duration field that is present by
  \<open>duration * articulationRate / 60\<close> (\<open>normalize_duration_Fin\<close> gives the value on finite
  numbers) and changes nothing else, so an absent field is neither transformed nor created
  and raises nothing; a source without any duration field needs no articulation-rate column
  and is left as it is. Whenever loading succeeds, the table of the \<open>DataPrep\<close> is that table
  without the dropped columns.
\<close>

theorem duration_transform:
  assumes "distinct (columns src)"
    and "set duration_fields \<inter> set (columns src) \<noteq> {}
           \<longrightarrow> map_of (cols src) articulation_rate = Some (NumCol rate)"
    and "numeric_durations src"
  shows "engineer_features src
           = Inr (src\<lparr>cols := engineered (set duration_fields) rate (cols src)\<rparr>)
         \<and> (\<forall>dp. DataPrep_init src style fd drops = Inr dp \<longrightarrow>
               data dp = drop_columns drops
                 (src\<lparr>cols := engineered (set duration_fields) rate (cols src)\<rparr>))"
proof -
  have e: "engineer_features src
           = Inr (src\<lparr>cols := engineered (set duration_fields) rate (cols src)\<rparr>)"
  proof (cases "set duration_fields \<inter> set (columns src) = {}")
    case False
    with assms(2) have "map_of (cols src) articulation_rate = Some (NumCol rate)" by simp
    with assms(1) show ?thesis using assms(3) by (rule engineer_features_eq)
  next
    case True
    then have "set duration_fields \<inter> fst ` set (cols src) = {}" by (simp add: columns_def)
    then have "engineered (set duration_fields) rate (cols src) = cols src"
      by (rule engineered_none)
    then show ?thesis by (simp add: engineer_features_no_durations [OF True])
  qed
  then show ?thesis by (auto dest: DataPrep_init_data)
qed

theorem duration_transform_witness:
  "distinct (columns src1)
   \<and> set duration_fields \<inter> set (columns src1) \<noteq> {}
   \<and> map_of (cols src1) articulation_rate = Some (NumCol [Fin 600, Fin 300])
   \<and> numeric_durations src1
   \<and> (\<exists>dp. DataPrep_init src1 ''read'' (Some []) [] = Inr dp
        \<and> cols (data dp) = [(''Filename'', StrCol [Some ''a'', Some ''b'']),
             (''Mean Articulation Rate (phpm)'', NumCol [Fin 600, Fin 300]),
             (''Mean Duration O (s)'', NumCol [Fin 1, Fin 1]),
             (''Mean Pitch (Hz)'', NumCol [Fin 100, Fin 200])])
   \<and> distinct (columns src_plain)
   \<and> set duration_fields \<inter> set (columns src_plain) = {}
   \<and> map_of (cols src_plain) articulation_rate = None
   \<and> numeric_durations src_plain
   \<and> engineer_features src_plain = Inr src_plain
   \<and> (\<exists>dp. DataPrep_init src_plain ''read'' (Some []) [] = Inr dp \<and> data dp = src_plain)"
proof -
  have a: "distinct (columns src1)" by (simp add: src1_def columns_def)
  have p: "set duration_fields \<inter> set (columns src1) \<noteq> {}"
    by (simp add: src1_def columns_def duration_fields_def)
  have b: "map_of (cols src1) articulation_rate = Some (NumCol [Fin 600, Fin 300])"
    by (simp add: src1_def articulation_rate_def)
  then have b': "set duration_fields \<inter> set (columns src1) \<noteq> {}
           \<longrightarrow> map_of (cols src1) articulation_rate = Some (NumCol [Fin 600, Fin 300])"
    by simp
  have c: "numeric_durations src1" by (simp add: src1_def numeric_durations_def duration_fields_def)
  note t = duration_transform [OF a b' c, of "''read''" "Some []" "[]"]
  have g: "getitem (drop_columns [] (src1\<lparr>cols := engineered (set duration_fields) [Fin 600, Fin 300] (cols src1)\<rparr>)) ''Filename''
      = Inr (StrCol [Some ''a'', Some ''b''])"
    by (simp add: getitem_def drop_columns_def src1_def engineered_def duration_fields_def)
  have "\<exists>dp. DataPrep_init src1 ''read'' (Some []) [] = Inr dp"
    using t g by (simp add: DataPrep_init_def ebind_def Let_def)
  then obtain dp where dp: "DataPrep_init src1 ''read'' (Some []) [] = Inr dp" ..
  with t have "data dp = drop_columns [] (src1\<lparr>cols := engineered (set duration_fields) [Fin 600, Fin 300] (cols src1)\<rparr>)"
    by blast
  then have "cols (data dp) = [(''Filename'', StrCol [Some ''a'', Some ''b'']),
             (''Mean Articulation Rate (phpm)'', NumCol [Fin 600, Fin 300]),
             (''Mean Duration O (s)'', NumCol [Fin 1, Fin 1]),
             (''Mean Pitch (Hz)'', NumCol [Fin 100, Fin 200])]"
    by (simp add: drop_columns_def src1_def engineered_def duration_fields_def normalize_duration_def)
  with dp have 1: "\<exists>dp. DataPrep_init src1 ''read'' (Some []) [] = Inr dp
        \<and> cols (data dp) = [(''Filename'', StrCol [Some ''a'', Some ''b'']),
             (''Mean Articulation Rate (phpm)'', NumCol [Fin 600, Fin 300]),
             (''Mean Duration O (s)'', NumCol [Fin 1, Fin 1]),
             (''Mean Pitch (Hz)'', NumCol [Fin 100, Fin 200])]"
    by blast
  have a2: "distinct (columns src_plain)" by (simp add: src_plain_def columns_def)
  have p2: "set duration_fields \<inter> set (columns src_plain) = {}"
    by (simp add: src_plain_def columns_def duration_fields_def)
  then have b2: "set duration_fields \<inter> set (columns src_plain) \<noteq> {}
           \<longrightarrow> map_of (cols src_plain) articulation_rate = Some (NumCol [])"
    by simp
  have n2: "map_of (cols src_plain) articulation_rate = None"
    by (simp add: src_plain_def articulation_rate_def)
  have c2: "numeric_durations src_plain"
    by (simp add: src_plain_def numeric_durations_def duration_fields_def)
  note t2 = duration_transform [OF a2 b2 c2, of "''read''" "Some []" "[]"]
  have s2: "src_plain\<lparr>cols := engineered (set duration_fields) [] (cols src_plain)\<rparr> = src_plain"
    by (simp add: src_plain_def engineered_def duration_fields_def)
  from t2 have e2: "engineer_features src_plain = Inr src_plain" by (simp only: s2)
  have "\<exists>dp. DataPrep_init src_plain ''read'' (Some []) [] = Inr dp"
    using e2 by (simp add: DataPrep_init_def ebind_def Let_def getitem_def drop_columns_def
        src_plain_def)
  then obtain dq where dq: "DataPrep_init src_plain ''read'' (Some []) [] = Inr dq" ..
  with t2 have "data dq = drop_columns [] src_plain" by (simp only: s2)
  then have "data dq = src_plain" by (simp add: drop_columns_def)
  with dq have 2: "\<exists>dp. DataPrep_init src_plain ''read'' (Some []) [] = Inr dp \<and> data dp = src_plain"
    by blast
  from a p b c 1 a2 p2 n2 c2 e2 2 show ?thesis by blast
qed

subsection \<open>Loading without the identifier column\<close>

lemma setitem_columns:
  "getitem df c = Inr col \<Longrightarrow> columns (setitem df c q) = columns df"
  by (auto simp add: getitem_def setitem_def columns_def update_keys map_of_eq_None_iff
      split: option.splits) (metis domI domIff map_of_eq_None_iff set_map)

lemma engineer_field_columns:
  "engineer_field cl c df = Inr df' \<Longrightarrow> columns df' = columns df"
  by (auto simp add: engineer_field_def ebind_def setitem_columns split: if_splits sum.splits)

lemma engineer_features_columns:
  assumes "engineer_features df = Inr df'"
  shows "columns df' = columns df"
proof -
  from assms obtain d1 d2 d3 d4 where
    "engineer_field (columns df) ''Mean Duration O (s)'' df = Inr d1"
    "engineer_field (columns df) ''Mean Duration E (s)'' d1 = Inr d2"
    "engineer_field (columns df) ''Mean Duration A (s)'' d2 = Inr d3"
    "engineer_field (columns df) ''Mean Duration u (s)'' d3 = Inr d4"
    "engineer_field (columns df) ''Mean Duration @ (s)'' d4 = Inr df'"
    by (auto simp add: engineer_features_def ebind_def Let_def split: sum.splits)
  then show ?thesis by (simp add: engineer_field_columns)
qed

lemma getitem_absent: "c \<notin> set (columns df) \<Longrightarrow> getitem df c = Inl (KeyError c)"
  by (simp add: getitem_def columns_def map_of_eq_None_iff [THEN iffD2] image_iff)

lemma drop_columns_subset: "set (columns (drop_columns names df)) \<subseteq> set (columns df)"
  by (auto simp add: drop_columns_def columns_def)

text \<open>
  Claim C5. Loading a source that has no \<open>Filename\<close> column raises: either the transform step
  has raised already, or reading the identifier column raises KeyError for \<open>Filename\<close>. No
  \<open>DataPrep\<close> is constructed. The exception is not caught in the pipeline.
\<close>

theorem DataPrep_init_no_identifier:
  assumes "''Filename'' \<notin> set (columns src)"
  shows "\<exists>e. DataPrep_init src style fd drops = Inl e
           \<and> (e = KeyError ''Filename'' \<or> engineer_features src = Inl e)"
proof (cases "engineer_features src")
  case (Inl e)
  then show ?thesis by (simp add: DataPrep_init_def ebind_def)
next
  case (Inr df)
  then have "columns df = columns src" by (rule engineer_features_columns)
  with assms have "''Filename'' \<notin> set (columns (drop_columns drops df))"
    using drop_columns_subset [of drops df] by auto
  then have "getitem (drop_columns drops df) ''Filename'' = Inl (KeyError ''Filename'')"
    by (rule getitem_absent)
  then show ?thesis using Inr by (simp add: DataPrep_init_def ebind_def Let_def)
qed

theorem DataPrep_init_no_identifier_witness:
  "''Filename'' \<notin> set (columns src_no_id)
   \<and> DataPrep_init src_no_id ''read'' (Some []) [] = Inl (KeyError ''Filename'')"
proof -
  have h: "''Filename'' \<notin> set (columns src_no_id)" by (simp add: src_no_id_def columns_def)
  have e: "engineer_features src_no_id = Inr src_no_id"
    by (simp add: engineer_features_def engineer_field_def ebind_def src_no_id_def columns_def Let_def)
  from DataPrep_init_no_identifier [OF h, of "''read''" "Some []" "[]"]
  show ?thesis using h e by auto
qed

subsection \<open>The feature dictionary\<close>

text \<open>
  Claim C6. With \<open>feature_dict\<close> left at its default \<open>None\<close> the constructor never returns a
  \<open>DataPrep\<close>: on a table that loads with an explicit dictionary the loop over \<open>feature_dict\<close>
  raises TypeError. With a dictionary the fields are mapped as the claim says
  (\<open>DataPrep_init_custom_features\<close> below).
\<close>

theorem DataPrep_init_default_feature_dict:
  "(\<exists>e. DataPrep_init src style None drops = Inl e)
   \<and> DataPrep_init src1 ''read'' None [] = Inl TypeError"
proof
  show "\<exists>e. DataPrep_init src style None drops = Inl e"
    by (auto simp add: DataPrep_init_def ebind_def Let_def split: sum.splits)
  show "DataPrep_init src1 ''read'' None [] = Inl TypeError"
    by (simp add: DataPrep_init_def engineer_features_def engineer_field_def ebind_def getitem_def
      setitem_def drop_columns_def src1_def columns_def articulation_rate_def Let_def)
qed

subsection \<open>PredefinedGrouping\<close>

text \<open>
  Claim C4 as stated fails for a feature table without rows, as read from a file that holds
  only the header line: \<open>n = 0\<close>, and a label list of length 1 is accepted. \<open>DataFrame.assign\<close>
  takes the index of a frame without rows from the list, so the grouping is constructed, over
  a table of one row whose other cells are missing.
\<close>

theorem PredefinedGrouping_empty_counterexample:
  "DataPrep_init src_header_only ''read'' (Some []) [] = Inr dp0
   \<and> nrows (data dp0) = 0
   \<and> length [''A''] \<noteq> nrows (data dp0)
   \<and> PredefinedGrouping_init dp0 [''A'']
       = Inr \<lparr>data_prep = dp0, label_fieldname = ''Group'', group_labels = Some [''A''],
              data_with_group_labels = Some \<lparr>nrows = 1, cols = [(''Filename'', StrCol [None]),
                (''Mean Pitch (Hz)'', StrCol [None]), (''Group'', StrCol [Some ''A''])]\<rparr>\<rparr>"
proof -
  have 1: "DataPrep_init src_header_only ''read'' (Some []) [] = Inr dp0"
    by (simp add: DataPrep_init_def engineer_features_def engineer_field_def ebind_def
        getitem_def drop_columns_def columns_def src_header_only_def dp0_def Let_def)
  have 2: "nrows (data dp0) = 0" by (simp add: dp0_def src_header_only_def)
  have 3: "PredefinedGrouping_init dp0 [''A'']
       = Inr \<lparr>data_prep = dp0, label_fieldname = ''Group'', group_labels = Some [''A''],
              data_with_group_labels = Some \<lparr>nrows = 1, cols = [(''Filename'', StrCol [None]),
                (''Mean Pitch (Hz)'', StrCol [None]), (''Group'', StrCol [Some ''A''])]\<rparr>\<rparr>"
    by (simp add: PredefinedGrouping_init_def Grouping_init_def add_labels_def assign_def
        ebind_def Let_def reindex_empty_def setitem_def)
      (simp add: dp0_def src_header_only_def)
  from 1 2 3 show ?thesis by simp
qed

text \<open>
  Claim C4, amended to tables with at least one row. Constructing a \<open>PredefinedGrouping\<close>
  from a feature table with \<open>n > 0\<close> rows and a label list whose length is not \<open>n\<close> raises the
  ValueError of the length check of \<open>DataFrame.assign\<close>; no grouping is constructed.
\<close>

theorem PredefinedGrouping_length_mismatch:
  "0 < nrows (data dp) \<Longrightarrow> length labels \<noteq> nrows (data dp) \<Longrightarrow>
     PredefinedGrouping_init dp labels = Inl ValueError"
  by (simp add: PredefinedGrouping_init_def Grouping_init_def add_labels_def assign_def
      ebind_def Let_def)

theorem PredefinedGrouping_length_mismatch_witness:
  "0 < nrows (data dp1) \<and> length [''A''] \<noteq> nrows (data dp1)
   \<and> PredefinedGrouping_init dp1 [''A''] = Inl ValueError
   \<and> PredefinedGrouping_init dp1 [''A'', ''B'', ''C''] = Inl ValueError"
proof -
  have p: "0 < nrows (data dp1)" by (simp add: dp1_def src1_def)
  have h: "length [''A''] \<noteq> nrows (data dp1)" by (simp add: dp1_def src1_def)
  have k: "length [''A'', ''B'', ''C''] \<noteq> nrows (data dp1)" by (simp add: dp1_def src1_def)
  from PredefinedGrouping_length_mismatch [OF p h] PredefinedGrouping_length_mismatch [OF p k]
  show ?thesis using p h by simp
qed

subsection \<open>DataPrep.get_normalized_data\<close>

text \<open>
  Claim C10. When a normalized matrix is stored, \<open>get_normalized_data\<close> returns it for every
  scaler and leaves the \<open>DataPrep\<close> and the state of the scaler as they are: nothing is fitted
  or computed. An explicit call of \<open>normalize_data\<close> fits the given scaler on the feature
  columns and overwrites the stored matrix with the result.
\<close>

theorem get_normalized_data_cached:
  "(normalized_data dp = Some m \<longrightarrow>
      get_normalized_data shapiro fit_transform scaler dp = Inr (Some m, dp, scaler))
   \<and> (select_columns (data dp) (map fst (custom_features dp)) = Inr selected \<longrightarrow>
      fit_transform scaler selected = Inr (m', scaler') \<longrightarrow>
      normalize_data shapiro fit_transform scaler False dp
        = Inr (dp\<lparr>normalized_data := Some m'\<rparr>, scaler'))"
  by (simp add: get_normalized_data_def normalize_data_def ebind_def Let_def)

lemma override_feature_keys: "map fst (override_feature fd k custom) = map fst custom"
  by (auto simp add: override_feature_def update_keys split: option.splits)

lemma fold_override_keys: "map fst (fold (override_feature fd) ks custom) = map fst custom"
  by (induction ks arbitrary: custom) (simp_all add: override_feature_keys)

lemma map_of_override_feature:
  "map_of (override_feature fd k custom) c
     = (if c = k \<and> c \<in> set (map fst custom) \<and> map_of fd c \<noteq> None then map_of fd c
        else map_of custom c)"
  by (auto simp add: override_feature_def update_conv' split: option.splits)

lemma map_of_fold_override:
  "map_of (fold (override_feature fd) ks custom) c
     = (if c \<in> set ks \<and> c \<in> set (map fst custom) \<and> map_of fd c \<noteq> None then map_of fd c
        else map_of custom c)"
proof (induction ks arbitrary: custom)
  case Nil show ?case by simp
next
  case (Cons k ks)
  show ?case
    by (simp only: fold_simps Cons.IH override_feature_keys map_of_override_feature)
      (auto simp del: set_map)
qed

lemma map_of_default_features:
  "map_of (map (\<lambda>csvfield. (csvfield, (csvfield, ''Value''))) fs) c
     = (if c \<in> set fs then Some (c, ''Value'') else None)"
  by (induction fs) auto

lemma DataPrep_init_custom_features:
  assumes "DataPrep_init src style (Some fd) drops = Inr dp"
  shows "map fst (custom_features dp) = tl (columns (data dp))"
    and "map_of (custom_features dp) c
           = (if c \<in> set (tl (columns (data dp)))
              then Some (case map_of fd c of None \<Rightarrow> (c, ''Value'') | Some v \<Rightarrow> v) else None)"
proof -
  from assms obtain df where
    dp: "dp = \<lparr>speaking_style = style, data = df,
           audiofile_ids = (case getitem df ''Filename'' of Inr ids \<Rightarrow> ids | Inl e \<Rightarrow> StrCol []),
           custom_features = fold (override_feature fd) (map fst fd)
             (map (\<lambda>csvfield. (csvfield, (csvfield, ''Value''))) (tl (columns df))),
           normalized_data = None\<rparr>"
    by (auto simp add: DataPrep_init_def ebind_def Let_def split: sum.splits)
  show "map fst (custom_features dp) = tl (columns (data dp))"
    by (simp add: dp fold_override_keys comp_def)
  have k: "c \<in> set (map fst fd) \<longleftrightarrow> map_of fd c \<noteq> None"
    by (simp add: map_of_eq_None_iff)
  show "map_of (custom_features dp) c
           = (if c \<in> set (tl (columns (data dp)))
              then Some (case map_of fd c of None \<Rightarrow> (c, ''Value'') | Some v \<Rightarrow> v) else None)"
    by (simp only: dp DataPrep.simps map_of_fold_override map_of_default_features k)
      (auto simp add: comp_def image_iff split: option.splits)
qed

theorem get_normalized_data_cached_witness:
  "normalized_data dp2 = Some [[Fin 0], [Fin 1]]
   \<and> get_normalized_data no_test count_fits 0 dp2 = Inr (Some [[Fin 0], [Fin 1]], dp2, 0)
   \<and> select_columns (data dp2) (map fst (custom_features dp2))
        = Inr [(''Mean Pitch (Hz)'', NumCol [Fin 100, Fin 200])]
   \<and> count_fits 0 [(''Mean Pitch (Hz)'', NumCol [Fin 100, Fin 200])] = Inr ([[Fin 1], [Fin 0]], 1)
   \<and> normalize_data no_test count_fits 0 False dp2
        = Inr (dp2\<lparr>normalized_data := Some [[Fin 1], [Fin 0]]\<rparr>, 1)"
proof -
  have a: "normalized_data dp2 = Some [[Fin 0], [Fin 1]]" by (simp add: dp2_def)
  have b: "select_columns (data dp2) (map fst (custom_features dp2))
        = Inr [(''Mean Pitch (Hz)'', NumCol [Fin 100, Fin 200])]"
    by (simp add: dp2_def src1_def getitem_def ebind_def)
  have c: "count_fits 0 [(''Mean Pitch (Hz)'', NumCol [Fin 100, Fin 200])] = Inr ([[Fin 1], [Fin 0]], 1)"
    by (simp add: count_fits_def)
  from get_normalized_data_cached [of dp2 "[[Fin 0], [Fin 1]]" no_test count_fits 0
      "[(''Mean Pitch (Hz)'', NumCol [Fin 100, Fin 200])]" "[[Fin 1], [Fin 0]]" 1]
  show ?thesis using a b c by simp
qed

end
